theory Spec2Isabelle
  imports Complex_Main
begin

section \<open>The adaptive time-stepping loop of \<^verbatim>\<open>src/kernel/ode/TimeStepper.cpp\<close>\<close>

text \<open>
  The file under study is the orchestrator \<^verbatim>\<open>TimeStepper\<close>. Its collaborators
  (\<^verbatim>\<open>Solution\<close>, \<^verbatim>\<open>Adaptivity\<close>, \<^verbatim>\<open>FixedPointIteration\<close>, \<^verbatim>\<open>SimpleTimeSlab\<close>,
  \<^verbatim>\<open>RecursiveTimeSlab\<close>, \<^verbatim>\<open>RHS\<close>, \<^verbatim>\<open>Partition\<close>) are declared elsewhere. The
  embedding is by explicit state passing:

  \<^item> the C++ type \<^verbatim>\<open>real\<close> is read as the mathematical reals (exact arithmetic, no
    rounding); the two places where the source divides by a value that can be zero are
    commented where they occur. The sample times are the one place where the rounding of
    \<^verbatim>\<open>double\<close> arithmetic decides what is written, so the sampling code is read a
    second time, with every operation rounded to the nearest double;
  \<^item> the collaborator objects reference one another (\<^verbatim>\<open>fixpoint(u, f, adaptivity)\<close>,
    the slabs hold \<^verbatim>\<open>u\<close> and \<^verbatim>\<open>adaptivity\<close>), so they are kept together in one
    record \<open>world\<close>, and every collaborator method is a parameter that may read and
    change that whole record;
  \<^item> the sample file is the list of sample times written so far, oldest first;
  \<^item> the two \<^verbatim>\<open>while\<close> loops without a bound (\<^verbatim>\<open>step\<close>, \<^verbatim>\<open>solve\<close>) and the
    sampling loop of \<^verbatim>\<open>save\<close> are \<^theory_text>\<open>partial_function (option)\<close>: \<open>None\<close> is a loop
    that never ends.

  Console output (\<^verbatim>\<open>cout\<close>, \<^verbatim>\<open>dolfin_warning\<close>) and wall-clock timing
  (\<^verbatim>\<open>tic\<close>/\<^verbatim>\<open>toc\<close>) are left out.
\<close>

subsection \<open>Solution State\<close>

text \<open>
  Modelled from the spec: class \<^verbatim>\<open>Solution\<close> is missing from the sources. The spec
  describes it as an ordered sequence of real values, one per component, mutated in place
  during a slab attempt, with \<^verbatim>\<open>reset()\<close> discarding the tentative updates (the state
  goes back to what it was at the start of the attempt) and \<^verbatim>\<open>shift(t)\<close> committing the
  current values as the accepted state at the new base time \<open>t\<close>.
\<close>

record solution =
  current :: "real list"
  committed :: "real list"
  base :: real

definition u_reset :: "solution \<Rightarrow> solution" where
  "u_reset v = v\<lparr>current := committed v\<rparr>"

definition u_shift :: "real \<Rightarrow> solution \<Rightarrow> solution" where
  "u_shift t0 v = v\<lparr>committed := current v, base := t0\<rparr>"

subsection \<open>Time slabs\<close>

text \<open>
  Modelled from the spec: the classes \<^verbatim>\<open>TimeSlab\<close>, \<^verbatim>\<open>SimpleTimeSlab\<close> and
  \<^verbatim>\<open>RecursiveTimeSlab\<close> are missing from the sources. The spec describes a slab as a
  tentative interval \<open>[start, end)\<close> built over \<open>[t, proposed_end)\<close>, which supplies
  \<^verbatim>\<open>starttime()\<close>, \<^verbatim>\<open>endtime()\<close>, \<^verbatim>\<open>length()\<close> and \<^verbatim>\<open>finished()\<close>, the last one
  true iff \<^verbatim>\<open>endtime() == T\<close>. The slab keeps the \<open>T\<close> it was constructed with.
\<close>

record time_slab =
  starttime :: real
  endtime :: real
  slab_T :: real

definition slab_length :: "time_slab \<Rightarrow> real" where
  "slab_length sl = endtime sl - starttime sl"

definition slab_finished :: "time_slab \<Rightarrow> bool" where
  "slab_finished sl = (endtime sl = slab_T sl)"

subsection \<open>Collaborators\<close>

text \<open>
  The collaborator objects owned by the stepper: the Solution State \<^verbatim>\<open>u\<close> and, as one
  opaque value \<open>others\<close>, the adaptivity controller, the fixed-point engine, the right-hand
  side \<^verbatim>\<open>f\<close> and the partition.
\<close>

record 'x world =
  u :: solution
  others :: 'x

text \<open>
  The methods of the missing classes that \<^verbatim>\<open>TimeStepper.cpp\<close> calls, as parameters.
  Each may change the collaborators, except the query \<^verbatim>\<open>adaptivity.fixed()\<close>, which only
  reads them. A slab constructor receives \<open>t\<close> and \<open>T\<close> and yields the end time it proposes;
  \<^verbatim>\<open>fixpoint.stabilization(alpha, m)\<close> receives the values its two reference arguments
  hold on entry and yields the values they hold on return.
\<close>

record 'x collab =
  new_SimpleTimeSlab :: "real \<Rightarrow> real \<Rightarrow> 'x world \<Rightarrow> real \<times> 'x world"
  new_RecursiveTimeSlab :: "real \<Rightarrow> real \<Rightarrow> 'x world \<Rightarrow> real \<times> 'x world"
  fixpoint_iterate :: "time_slab \<Rightarrow> 'x world \<Rightarrow> bool \<times> 'x world"
  fixpoint_stabilization :: "real \<Rightarrow> nat \<Rightarrow> 'x world \<Rightarrow> (real \<times> nat) \<times> 'x world"
  adaptivity_fixed :: "'x world \<Rightarrow> bool"
  adaptivity_accept :: "time_slab \<Rightarrow> 'x world \<Rightarrow> bool \<times> 'x world"
  adaptivity_shift :: "'x world \<Rightarrow> 'x world"
  adaptivity_stabilize :: "real \<Rightarrow> nat \<Rightarrow> 'x world \<Rightarrow> 'x world"

subsection \<open>The stepper\<close>

text \<open>
  The data members of \<^verbatim>\<open>TimeStepper\<close>. \<open>finished\<close> is the member \<^verbatim>\<open>_finished\<close>,
  which \<^verbatim>\<open>TimeStepper::finished()\<close> returns; \<open>sample_file\<close> is the member
  \<^verbatim>\<open>file\<close>; \<open>objs\<close> holds the members \<^verbatim>\<open>partition\<close>, \<^verbatim>\<open>adaptivity\<close>, \<^verbatim>\<open>u\<close>,
  \<^verbatim>\<open>f\<close> and \<^verbatim>\<open>fixpoint\<close>. \<open>p\<close> is the value last assigned to the progress bar,
  \<open>None\<close> when that value is not a real number (the quotient \<open>t / T\<close> with \<open>T = 0\<close>).
\<close>

record 'x stepper =
  no_samples :: int
  N :: nat
  t :: real
  T :: real
  objs :: "'x world"
  sample_file :: "real list"
  p :: "real option"
  finished :: bool
  save_solution :: bool

datatype config_error = InvalidConfiguration

text \<open>
  The constructor (lines 20--30). It copies the configuration, sets \<open>t\<close> to 0 and the
  finished flag to false, and has no \<^verbatim>\<open>throw\<close> or other failure path, so the result
  is always \<open>Inr\<close>. The progress bar \<^verbatim>\<open>p("Time-stepping")\<close> starts at the progress
  fraction of \<open>t = 0\<close>, which is 0.
\<close>

definition TimeStepper ::
  "int \<Rightarrow> nat \<Rightarrow> real \<Rightarrow> bool \<Rightarrow> 'x world \<Rightarrow> config_error + 'x stepper" where
  "TimeStepper samples n endtm sv w0 =
     Inr \<lparr>no_samples = samples, N = n, t = 0, T = endtm, objs = w0, sample_file = [],
          p = Some 0, finished = False, save_solution = sv\<rparr>"

text \<open>\<^verbatim>\<open>TimeStepper::stabilize\<close> (lines 197--209).\<close>

definition stabilize :: "'x collab \<Rightarrow> real \<Rightarrow> 'x stepper \<Rightarrow> 'x stepper" where
  "stabilize c K s =
     (let ((alpha, m), w1) = fixpoint_stabilization c 1 0 (objs s);
          k = min alpha (1 / 2) * K
      in s\<lparr>objs := adaptivity_stabilize c k m w1\<rparr>)"

text \<open>\<^verbatim>\<open>TimeStepper::shift\<close> (lines 163--170).\<close>

definition shift :: "'x collab \<Rightarrow> 'x stepper \<Rightarrow> 'x stepper" where
  "shift c s =
     (let w1 = adaptivity_shift c (objs s)
      in s\<lparr>objs := w1\<lparr>u := u_shift (t s) (u w1)\<rparr>\<rparr>)"

text \<open>
  The sampling loop of \<^verbatim>\<open>TimeStepper::save\<close> (lines 183--188): \<open>tc\<close> is the local
  variable \<^verbatim>\<open>t\<close>, \<open>e\<close> the slab's end time, \<open>fl\<close> the file.
\<close>

partial_function (option) save_loop :: "real \<Rightarrow> real \<Rightarrow> real \<Rightarrow> real list \<Rightarrow> real list option" where
  "save_loop K e tc fl = (if tc < e then save_loop K e (tc + K) (fl @ [tc]) else Some fl)"

text \<open>
  \<^verbatim>\<open>TimeStepper::save\<close> (lines 172--195). When \<^verbatim>\<open>no_samples\<close> or \<open>T\<close> is zero the
  source divides by zero: \<open>K\<close> is then infinite, zero or not a number, the first sample
  time \<^verbatim>\<open>ceil(starttime/K) * K\<close> is not a number, the comparison \<^verbatim>\<open>t < endtime\<close> is
  false and the loop body never runs. That case is written out; HOL's \<open>x / 0 = 0\<close> is
  not used.
\<close>

definition save :: "time_slab \<Rightarrow> 'x stepper \<Rightarrow> 'x stepper option" where
  "save timeslab s =
     (if \<not> save_solution s then Some s
      else
        let K = T s / real_of_int (no_samples s);
            looped =
              (if no_samples s = 0 \<or> T s = 0 then Some (sample_file s)
               else save_loop K (endtime timeslab)
                      (real_of_int \<lceil>starttime timeslab / K\<rceil> * K) (sample_file s))
        in case looped of
             None \<Rightarrow> None
           | Some fl \<Rightarrow>
               Some (s\<lparr>sample_file := (if slab_finished timeslab then fl @ [endtime timeslab] else fl)\<rparr>))"

text \<open>
  The common tail of both slab functions (lines 95--114 and 141--161, the same text):
  update the time, save, shift, update the progress, check whether the run is done. With
  \<open>T = 0\<close> the source's \<^verbatim>\<open>t / T\<close> is infinite or not a number; the model assigns
  \<open>None\<close> then.
\<close>

definition accept_slab :: "'x collab \<Rightarrow> time_slab \<Rightarrow> 'x stepper \<Rightarrow> (bool \<times> 'x stepper) option" where
  "accept_slab c timeslab s =
     (case save timeslab (s\<lparr>t := endtime timeslab\<rparr>) of
        None \<Rightarrow> None
      | Some s1 \<Rightarrow>
          let s2 = shift c s1;
              s3 = s2\<lparr>p := (if T s2 = 0 then None else Some (t s2 / T s2))\<rparr>
          in Some (True, if slab_finished timeslab then s3\<lparr>finished := True, p := Some 1\<rparr>
                         else s3))"

text \<open>\<^verbatim>\<open>TimeStepper::createFirstTimeSlab\<close> (lines 70--115).\<close>

definition createFirstTimeSlab :: "'x collab \<Rightarrow> 'x stepper \<Rightarrow> (bool \<times> 'x stepper) option" where
  "createFirstTimeSlab c s =
     (let (e, w1) = new_SimpleTimeSlab c (t s) (T s) (objs s);
          timeslab = \<lparr>starttime = t s, endtime = e, slab_T = T s\<rparr>;
          (converged, w2) = fixpoint_iterate c timeslab w1
      in if \<not> converged then
           let s1 = stabilize c (slab_length timeslab) (s\<lparr>objs := w2\<rparr>)
           in Some (False, s1\<lparr>objs := (objs s1)\<lparr>u := u_reset (u (objs s1))\<rparr>\<rparr>)
         else if \<not> adaptivity_fixed c w2 then
           let (accepted, w3) = adaptivity_accept c timeslab w2
           in if \<not> accepted then
                let w4 = adaptivity_shift c w3
                in Some (False, s\<lparr>objs := w4\<lparr>u := u_reset (u w4)\<rparr>\<rparr>)
              else accept_slab c timeslab (s\<lparr>objs := w3\<rparr>)
         else accept_slab c timeslab (s\<lparr>objs := w2\<rparr>))"

text \<open>
  \<^verbatim>\<open>TimeStepper::createGeneralTimeSlab\<close> (lines 117--161). The residual check of lines
  130--139 is inside a comment in the source and is therefore not part of the function.
\<close>

definition createGeneralTimeSlab :: "'x collab \<Rightarrow> 'x stepper \<Rightarrow> (bool \<times> 'x stepper) option" where
  "createGeneralTimeSlab c s =
     (let (e, w1) = new_RecursiveTimeSlab c (t s) (T s) (objs s);
          timeslab = \<lparr>starttime = t s, endtime = e, slab_T = T s\<rparr>;
          (converged, w2) = fixpoint_iterate c timeslab w1
      in if \<not> converged then
           let s1 = stabilize c (slab_length timeslab) (s\<lparr>objs := w2\<rparr>)
           in Some (False, s1\<lparr>objs := (objs s1)\<lparr>u := u_reset (u (objs s1))\<rparr>\<rparr>)
         else accept_slab c timeslab (s\<lparr>objs := w2\<rparr>))"

text \<open>\<^verbatim>\<open>TimeStepper::createTimeSlab\<close> (lines 62--68).\<close>

definition createTimeSlab :: "'x collab \<Rightarrow> 'x stepper \<Rightarrow> (bool \<times> 'x stepper) option" where
  "createTimeSlab c s =
     (if t s = 0 then createFirstTimeSlab c s else createGeneralTimeSlab c s)"

text \<open>
  \<^verbatim>\<open>TimeStepper::step\<close> (lines 49--55): the loop \<^verbatim>\<open>while ( !createTimeSlab() );\<close>
  followed by \<^verbatim>\<open>return t\<close>. The result is the returned time and the stepper after the
  call.
\<close>

partial_function (option) step :: "'x collab \<Rightarrow> 'x stepper \<Rightarrow> (real \<times> 'x stepper) option" where
  "step c s =
     (case createTimeSlab c s of
        None \<Rightarrow> None
      | Some (ok, s1) \<Rightarrow> if ok then Some (t s1, s1) else step c s1)"

text \<open>
  \<^verbatim>\<open>TimeStepper::solve\<close> (lines 39--47): construct a stepper, then call \<^verbatim>\<open>step\<close>
  until \<^verbatim>\<open>finished()\<close>. \<open>solve_loop\<close> is the \<^verbatim>\<open>while\<close> loop of line 45.
\<close>

partial_function (option) solve_loop :: "'x collab \<Rightarrow> 'x stepper \<Rightarrow> 'x stepper option" where
  "solve_loop c s =
     (if \<not> finished s then
        (case step c s of None \<Rightarrow> None | Some (tm, s1) \<Rightarrow> solve_loop c s1)
      else Some s)"

definition solve ::
  "'x collab \<Rightarrow> int \<Rightarrow> nat \<Rightarrow> real \<Rightarrow> bool \<Rightarrow> 'x world \<Rightarrow> (config_error + 'x stepper) option" where
  "solve c samples n endtm sv w0 =
     (case TimeStepper samples n endtm sv w0 of
        Inl err \<Rightarrow> Some (Inl err)
      | Inr s \<Rightarrow> map_option Inr (solve_loop c s))"

subsection \<open>Notions used to state the properties\<close>

text \<open>
  The slab that \<^verbatim>\<open>createFirstTimeSlab\<close> (line 73) and \<^verbatim>\<open>createGeneralTimeSlab\<close>
  (line 120) construct in state \<open>s\<close>, the collaborators after the construction, and the
  outcome of \<^verbatim>\<open>fixpoint.iterate(timeslab)\<close> on it (lines 76 and 123).
\<close>

definition first_slab :: "'x collab \<Rightarrow> 'x stepper \<Rightarrow> time_slab" where
  "first_slab c s =
     \<lparr>starttime = t s, endtime = fst (new_SimpleTimeSlab c (t s) (T s) (objs s)), slab_T = T s\<rparr>"

definition general_slab :: "'x collab \<Rightarrow> 'x stepper \<Rightarrow> time_slab" where
  "general_slab c s =
     \<lparr>starttime = t s, endtime = fst (new_RecursiveTimeSlab c (t s) (T s) (objs s)), slab_T = T s\<rparr>"

definition first_iterate :: "'x collab \<Rightarrow> 'x stepper \<Rightarrow> bool \<times> 'x world" where
  "first_iterate c s =
     fixpoint_iterate c (first_slab c s) (snd (new_SimpleTimeSlab c (t s) (T s) (objs s)))"

definition general_iterate :: "'x collab \<Rightarrow> 'x stepper \<Rightarrow> bool \<times> 'x world" where
  "general_iterate c s =
     fixpoint_iterate c (general_slab c s) (snd (new_RecursiveTimeSlab c (t s) (T s) (objs s)))"

definition next_slab :: "'x collab \<Rightarrow> 'x stepper \<Rightarrow> time_slab" where
  "next_slab c s = (if t s = 0 then first_slab c s else general_slab c s)"

text \<open>\<^verbatim>\<open>u.reset()\<close> on the stepper's collaborators (lines 79, 90 and 126).\<close>

definition reset_u :: "'x world \<Rightarrow> 'x world" where
  "reset_u w = w\<lparr>u := u_reset (u w)\<rparr>"

text \<open>
  The slab invariant of the spec's data model, \<open>start < end \<le> T\<close>, as a condition on the
  two slab constructors: from any start time before \<open>T\<close> the proposed end time lies after
  the start and not after \<open>T\<close>.
\<close>

definition slab_ends_ok :: "'x collab \<Rightarrow> bool" where
  "slab_ends_ok c \<longleftrightarrow>
     (\<forall>t0 tend w. t0 < tend \<longrightarrow>
        t0 < fst (new_SimpleTimeSlab c t0 tend w) \<and> fst (new_SimpleTimeSlab c t0 tend w) \<le> tend \<and>
        t0 < fst (new_RecursiveTimeSlab c t0 tend w) \<and> fst (new_RecursiveTimeSlab c t0 tend w) \<le> tend)"

text \<open>
  The staging discipline of the Solution State in the spec: the collaborators work on the
  tentative values only; what \<^verbatim>\<open>shift\<close> committed is changed by nobody else.
\<close>

definition same_commit :: "'x world \<Rightarrow> 'x world \<Rightarrow> bool" where
  "same_commit w w' \<longleftrightarrow> committed (u w') = committed (u w) \<and> base (u w') = base (u w)"

definition keeps_committed :: "'x collab \<Rightarrow> bool" where
  "keeps_committed c \<longleftrightarrow>
     (\<forall>t0 tend sl a m k w.
        same_commit w (snd (new_SimpleTimeSlab c t0 tend w)) \<and>
        same_commit w (snd (new_RecursiveTimeSlab c t0 tend w)) \<and>
        same_commit w (snd (fixpoint_iterate c sl w)) \<and>
        same_commit w (snd (fixpoint_stabilization c a m w)) \<and>
        same_commit w (snd (adaptivity_accept c sl w)) \<and>
        same_commit w (adaptivity_shift c w) \<and>
        same_commit w (adaptivity_stabilize c k m w))"

text \<open>
  The states a run of \<^verbatim>\<open>solve\<close> passes through: \<open>run c s0 h s\<close> says that, starting
  from \<open>s0\<close>, the calls of \<^verbatim>\<open>createTimeSlab\<close> made so far returned the values \<open>h\<close>
  (oldest first) and left the stepper in state \<open>s\<close>. \<^verbatim>\<open>solve\<close> stops calling once the
  finished flag is set.
\<close>

inductive run :: "'x collab \<Rightarrow> 'x stepper \<Rightarrow> bool list \<Rightarrow> 'x stepper \<Rightarrow> bool"
  for c :: "'x collab" and s0 :: "'x stepper" where
  run_start: "run c s0 [] s0"
| run_attempt:
    "run c s0 h s \<Longrightarrow> \<not> finished s \<Longrightarrow> createTimeSlab c s = Some (ok, s1) \<Longrightarrow>
     run c s0 (h @ [ok]) s1"

text \<open>The state after \<open>n\<close> calls of \<^verbatim>\<open>createTimeSlab\<close> in a row that all returned false.\<close>

fun retry :: "'x collab \<Rightarrow> nat \<Rightarrow> 'x stepper \<Rightarrow> 'x stepper option" where
  "retry c 0 s = Some s"
| "retry c (Suc n) s =
     (case createTimeSlab c s of
        Some (False, s1) \<Rightarrow> retry c n s1
      | _ \<Rightarrow> None)"

text \<open>
  The stepper as \<^verbatim>\<open>createFirstTimeSlab\<close> and \<^verbatim>\<open>createGeneralTimeSlab\<close> leave it
  when the iteration on slab \<open>sl\<close> has failed with the collaborators in state \<open>w2\<close>
  (lines 78--80 and 125--127): \<^verbatim>\<open>stabilize(timeslab.length())\<close>, then \<^verbatim>\<open>u.reset()\<close>.
\<close>

definition rejected_by_iteration :: "'x collab \<Rightarrow> time_slab \<Rightarrow> 'x world \<Rightarrow> 'x stepper \<Rightarrow> 'x stepper" where
  "rejected_by_iteration c sl w2 s =
     s\<lparr>objs := reset_u (objs (stabilize c (slab_length sl) (s\<lparr>objs := w2\<rparr>)))\<rparr>"

text \<open>
  The sampling cadence \<open>K = T / no_samples\<close> (line 179), and a configuration under which
  the sampling loop cannot run forever: saving is off, or neither \<open>T\<close> nor the sample
  count is negative.
\<close>

definition cadence :: "'x stepper \<Rightarrow> real" where
  "cadence s = T s / real_of_int (no_samples s)"

definition sampling_ok :: "'x stepper \<Rightarrow> bool" where
  "sampling_ok s \<longleftrightarrow> (save_solution s \<longrightarrow> 0 \<le> T s \<and> 0 \<le> no_samples s)"

text \<open>
  The multiples \<open>i * K\<close> of the cadence for the integers \<open>i\<close> from \<open>\<lceil>a / K\<rceil>\<close> up to
  \<open>\<lceil>b / K\<rceil> - 1\<close>, in increasing order; the samples expected for one slab; and the
  multiples from 0 on that lie before a time \<open>tm\<close>.
\<close>

definition multiples_between :: "real \<Rightarrow> real \<Rightarrow> real \<Rightarrow> real list" where
  "multiples_between K a b = map (\<lambda>i. real_of_int i * K) [\<lceil>a / K\<rceil>..\<lceil>b / K\<rceil> - 1]"

definition slab_samples :: "real \<Rightarrow> time_slab \<Rightarrow> real list" where
  "slab_samples K sl =
     multiples_between K (starttime sl) (endtime sl) @
     (if slab_finished sl then [endtime sl] else [])"

text \<open>
  A concrete set of collaborators, used to run the stepper on examples. \<open>others\<close> is the
  controller's step-size estimate; a slab takes that step, clipped to \<open>T\<close>; the
  iteration converges on slabs of length at most 4 and moves the tentative values; the
  residual is accepted on slabs of length at most 3; the engine leaves \<^verbatim>\<open>alpha\<close> and
  \<^verbatim>\<open>m\<close> as they are; \<^verbatim>\<open>adaptivity.shift\<close> sets the estimate to 3 and
  \<^verbatim>\<open>adaptivity.stabilize(k, m)\<close> sets it to \<open>k\<close>.
\<close>

definition demo_end :: "real \<Rightarrow> real \<Rightarrow> real world \<Rightarrow> real \<times> real world" where
  "demo_end t0 tend w = ((if 0 < others w then min (t0 + others w) tend else tend), w)"

definition demo :: "real collab" where
  "demo =
     \<lparr>new_SimpleTimeSlab = demo_end,
      new_RecursiveTimeSlab = demo_end,
      fixpoint_iterate =
        (\<lambda>sl w. (slab_length sl \<le> 4, w\<lparr>u := (u w)\<lparr>current := map (\<lambda>x. x + 1) (current (u w))\<rparr>\<rparr>)),
      fixpoint_stabilization = (\<lambda>a m w. ((a, m), w)),
      adaptivity_fixed = (\<lambda>w. False),
      adaptivity_accept = (\<lambda>sl w. (slab_length sl \<le> 3, w)),
      adaptivity_shift = (\<lambda>w. w\<lparr>others := 3\<rparr>),
      adaptivity_stabilize = (\<lambda>k m w. w\<lparr>others := k\<rparr>)\<rparr>"

definition demo_world :: "real \<Rightarrow> real world" where
  "demo_world k = \<lparr>u = \<lparr>current = [1], committed = [1], base = 0\<rparr>, others = k\<rparr>"

definition demo_stepper :: "real \<Rightarrow> real stepper" where
  "demo_stepper k =
     \<lparr>no_samples = 5, N = 1, t = 0, T = 10, objs = demo_world k, sample_file = [],
      p = Some 0, finished = False, save_solution = True\<rparr>"

text \<open>
  The same collaborators with an engine that reports the damping factor \<open>- 1\<close> and the
  subdivision hint 3, and with a controller in fixed-step mode.
\<close>

definition pessimist :: "real collab" where
  "pessimist = demo\<lparr>fixpoint_stabilization := (\<lambda>a m w. ((- 1, 3), w))\<rparr>"

definition fixed_demo :: "real collab" where
  "fixed_demo = demo\<lparr>adaptivity_fixed := (\<lambda>w. True)\<rparr>"

text \<open>A stepper of the example in mid-run: \<open>t = 3\<close>, step-size estimate \<open>k\<close>.\<close>

definition demo_midrun :: "real \<Rightarrow> real stepper" where
  "demo_midrun k = (demo_stepper k)\<lparr>t := 3, sample_file := [0, 2], p := Some (3 / 10)\<rparr>"

text \<open>States the example reaches, written out.\<close>

definition demo_after_general :: "real stepper" where
  "demo_after_general =
     \<lparr>no_samples = 5, N = 1, t = 7, T = 10,
      objs = \<lparr>u = \<lparr>current = [2], committed = [2], base = 7\<rparr>, others = 3\<rparr>,
      sample_file = [0, 2, 4, 6], p = Some (7 / 10), finished = False, save_solution = True\<rparr>"

definition demo_after_first :: "real stepper" where
  "demo_after_first =
     \<lparr>no_samples = 5, N = 1, t = 3, T = 10,
      objs = \<lparr>u = \<lparr>current = [2], committed = [2], base = 3\<rparr>, others = 3\<rparr>,
      sample_file = [0, 2], p = Some (3 / 10), finished = False, save_solution = True\<rparr>"

definition demo_after_fixed :: "real stepper" where
  "demo_after_fixed =
     \<lparr>no_samples = 5, N = 1, t = 7 / 2, T = 10,
      objs = \<lparr>u = \<lparr>current = [2], committed = [2], base = 7 / 2\<rparr>, others = 3\<rparr>,
      sample_file = [0, 2], p = Some (7 / 20), finished = False, save_solution = True\<rparr>"

text \<open>A short run of the example: \<open>T = 3\<close>, finished by its first slab.\<close>

definition demo_short :: "real stepper" where
  "demo_short = (demo_stepper 3)\<lparr>T := 3\<rparr>"

definition demo_short_finished :: "real stepper" where
  "demo_short_finished =
     \<lparr>no_samples = 5, N = 1, t = 3, T = 3,
      objs = \<lparr>u = \<lparr>current = [2], committed = [2], base = 3\<rparr>, others = 3\<rparr>,
      sample_file = [0, 3 / 5, 6 / 5, 9 / 5, 12 / 5, 3], p = Some 1,
      finished = True, save_solution = True\<rparr>"



text \<open>The example constructed with the end time \<open>T = - 1\<close>, and the state its run ends in.\<close>

definition demo_negative :: "real stepper" where
  "demo_negative = (demo_stepper 1)\<lparr>T := - 1\<rparr>"

definition demo_negative_end :: "real stepper" where
  "demo_negative_end =
     \<lparr>no_samples = 5, N = 1, t = - 1, T = - 1,
      objs = \<lparr>u = \<lparr>current = [2], committed = [2], base = - 1\<rparr>, others = 3\<rparr>,
      sample_file = [- 1], p = Some 1, finished = True, save_solution = True\<rparr>"


subsection \<open>The sampling code in double precision\<close>












declare save_loop.simps [code] step.simps [code] solve_loop.simps [code]


section \<open>The sampling loop\<close>

text \<open>
  With a positive cadence \<open>K\<close>, the loop started at the multiple \<open>j * K\<close> ends, and it
  has appended the multiples \<open>j * K, (j + 1) * K, \<dots>\<close> that lie before \<open>e\<close>.
\<close>

lemma save_loop_multiples:
  assumes "0 < K"
  shows "save_loop K e (real_of_int j * K) fl =
           Some (fl @ map (\<lambda>i. real_of_int i * K) [j..\<lceil>e / K\<rceil> - 1])"
proof (induction "nat (\<lceil>e / K\<rceil> - j)" arbitrary: j fl)
  case 0
  then have le: "\<lceil>e / K\<rceil> \<le> j" by simp
  then have "e / K \<le> real_of_int j" by (simp add: ceiling_le_iff)
  with assms have "\<not> real_of_int j * K < e" by (simp add: pos_divide_le_eq)
  moreover from le have "[j..\<lceil>e / K\<rceil> - 1] = []" by simp
  ultimately show ?case by (subst save_loop.simps) simp
next
  case (Suc n)
  then have lt: "j < \<lceil>e / K\<rceil>" by linarith
  then have "real_of_int j < e / K" by (simp add: less_ceiling_iff)
  with assms have cond: "real_of_int j * K < e" by (simp add: pos_less_divide_eq)
  from Suc have n: "n = nat (\<lceil>e / K\<rceil> - (j + 1))" by linarith
  have next_t: "real_of_int j * K + K = real_of_int (j + 1) * K" by (simp add: algebra_simps)
  from lt have rng: "[j..\<lceil>e / K\<rceil> - 1] = j # [j + 1..\<lceil>e / K\<rceil> - 1]"
    by (simp add: upto_rec1)
  have "save_loop K e (real_of_int j * K) fl =
          save_loop K e (real_of_int (j + 1) * K) (fl @ [real_of_int j * K])"
    using cond next_t by (subst save_loop.simps) simp
  also have "\<dots> = Some ((fl @ [real_of_int j * K]) @
                       map (\<lambda>i. real_of_int i * K) [j + 1..\<lceil>e / K\<rceil> - 1])"
    by (rule Suc.hyps(1) [OF n])
  finally show ?case using rng by simp
qed

lemma save_positive:
  assumes "save_solution s" "0 < T s" "0 < no_samples s"
  shows "save sl s = Some (s\<lparr>sample_file := sample_file s @ slab_samples (cadence s) sl\<rparr>)"
proof -
  have K: "0 < cadence s" using assms by (simp add: cadence_def)
  show ?thesis
    using assms save_loop_multiples [OF K, of "endtime sl" "\<lceil>starttime sl / cadence s\<rceil>" "sample_file s"]
    by (simp add: save_def slab_samples_def multiples_between_def cadence_def Let_def)
qed

lemma save_frame:
  "save sl s = Some s1 \<Longrightarrow> s1 = s\<lparr>sample_file := sample_file s1\<rparr>"
  by (cases "save_solution s") (auto simp: save_def Let_def split: option.splits if_splits)

lemma save_returns:
  assumes "sampling_ok s"
  shows "\<exists>s1. save sl s = Some s1"
proof (cases "save_solution s \<and> no_samples s \<noteq> 0 \<and> T s \<noteq> 0")
  case False
  then show ?thesis by (auto simp: save_def Let_def)
next
  case True
  with assms have "save_solution s" "0 < T s" "0 < no_samples s"
    by (auto simp: sampling_ok_def)
  from save_positive [OF this] show ?thesis by blast
qed

section \<open>The two slab functions, branch by branch\<close>

lemma accept_slab_fields:
  assumes "accept_slab c sl s = Some (ok, s')"
  shows "ok" and "t s' = endtime sl" and "T s' = T s" and "no_samples s' = no_samples s"
    and "N s' = N s" and "save_solution s' = save_solution s"
    and "finished s' \<longleftrightarrow> finished s \<or> slab_finished sl"
    and "p s' = (if slab_finished sl then Some 1 else if T s = 0 then None else Some (endtime sl / T s))"
    and "objs s' = objs (shift c (s\<lparr>t := endtime sl\<rparr>))"
    and "save sl (s\<lparr>t := endtime sl\<rparr>) = Some (s\<lparr>t := endtime sl, sample_file := sample_file s'\<rparr>)"
proof -
  from assms obtain s1 where sv: "save sl (s\<lparr>t := endtime sl\<rparr>) = Some s1"
    by (auto simp: accept_slab_def split: option.splits)
  from save_frame [OF sv] have s1: "s1 = s\<lparr>t := endtime sl, sample_file := sample_file s1\<rparr>" .
  from assms sv have r: "ok" "s' = (let s2 = shift c s1;
                  s3 = s2\<lparr>p := (if T s2 = 0 then None else Some (t s2 / T s2))\<rparr>
          in if slab_finished sl then s3\<lparr>finished := True, p := Some 1\<rparr> else s3)"
    by (auto simp: accept_slab_def Let_def split: if_splits)
  show "ok" by fact
  have f: "sample_file s' = sample_file s1" using r(2) by (simp add: Let_def shift_def)
  show "t s' = endtime sl" using r(2) by (subst (asm) s1) (simp add: Let_def shift_def)
  show "T s' = T s" using r(2) by (subst (asm) s1) (simp add: Let_def shift_def)
  show "no_samples s' = no_samples s" using r(2) by (subst (asm) s1) (simp add: Let_def shift_def)
  show "N s' = N s" using r(2) by (subst (asm) s1) (simp add: Let_def shift_def)
  show "save_solution s' = save_solution s" using r(2) by (subst (asm) s1) (simp add: Let_def shift_def)
  show "finished s' \<longleftrightarrow> finished s \<or> slab_finished sl"
    using r(2) by (subst (asm) s1) (simp add: Let_def shift_def)
  show "p s' = (if slab_finished sl then Some 1 else if T s = 0 then None else Some (endtime sl / T s))"
    using r(2) by (subst (asm) s1) (simp add: Let_def shift_def)
  show "objs s' = objs (shift c (s\<lparr>t := endtime sl\<rparr>))"
    using r(2) by (subst (asm) s1) (simp add: Let_def shift_def)
  show "save sl (s\<lparr>t := endtime sl\<rparr>) = Some (s\<lparr>t := endtime sl, sample_file := sample_file s'\<rparr>)"
    using sv s1 f by simp
qed

lemma accept_slab_not_rejected: "accept_slab c sl s \<noteq> Some (False, s')"
  using accept_slab_fields(1) [of c sl s False s'] by blast

lemma accept_slab_returns:
  assumes "sampling_ok s"
  shows "\<exists>s'. accept_slab c sl (s\<lparr>objs := w\<rparr>) = Some (True, s')"
proof -
  have "sampling_ok (s\<lparr>objs := w, t := endtime sl\<rparr>)" using assms by (simp add: sampling_ok_def)
  from save_returns [OF this] obtain s1 where "save sl (s\<lparr>objs := w, t := endtime sl\<rparr>) = Some s1"
    by blast
  then show ?thesis by (simp add: accept_slab_def Let_def)
qed

lemma accept_slab_world_only:
  "accept_slab c sl (s\<lparr>objs := w\<rparr>) = Some (ok, s') \<Longrightarrow>
     ok \<and> t s' = endtime sl \<and> T s' = T s \<and> no_samples s' = no_samples s \<and> N s' = N s \<and>
     save_solution s' = save_solution s \<and> (finished s' \<longleftrightarrow> finished s \<or> slab_finished sl) \<and>
     p s' = (if slab_finished sl then Some 1 else if T s = 0 then None else Some (endtime sl / T s))"
  using accept_slab_fields [of c sl "s\<lparr>objs := w\<rparr>" ok s'] by simp

lemma stabilize_objs:
  "stabilize c K s =
     s\<lparr>objs := adaptivity_stabilize c (min (fst (fst (fixpoint_stabilization c 1 0 (objs s)))) (1 / 2) * K)
                 (snd (fst (fixpoint_stabilization c 1 0 (objs s))))
                 (snd (fixpoint_stabilization c 1 0 (objs s)))\<rparr>"
  by (simp add: stabilize_def Let_def split: prod.splits)

lemma createFirstTimeSlab_unfold:
  "createFirstTimeSlab c s =
     (if \<not> fst (first_iterate c s) then
        Some (False, rejected_by_iteration c (first_slab c s) (snd (first_iterate c s)) s)
      else if \<not> adaptivity_fixed c (snd (first_iterate c s)) then
        (if \<not> fst (adaptivity_accept c (first_slab c s) (snd (first_iterate c s))) then
           Some (False, s\<lparr>objs := reset_u (adaptivity_shift c
                   (snd (adaptivity_accept c (first_slab c s) (snd (first_iterate c s)))))\<rparr>)
         else accept_slab c (first_slab c s)
                (s\<lparr>objs := snd (adaptivity_accept c (first_slab c s) (snd (first_iterate c s)))\<rparr>))
      else accept_slab c (first_slab c s) (s\<lparr>objs := snd (first_iterate c s)\<rparr>))"
  by (simp add: createFirstTimeSlab_def first_iterate_def first_slab_def rejected_by_iteration_def
      reset_u_def stabilize_objs Let_def split: prod.splits)

lemma createGeneralTimeSlab_unfold:
  "createGeneralTimeSlab c s =
     (if \<not> fst (general_iterate c s) then
        Some (False, rejected_by_iteration c (general_slab c s) (snd (general_iterate c s)) s)
      else accept_slab c (general_slab c s) (s\<lparr>objs := snd (general_iterate c s)\<rparr>))"
  by (simp add: createGeneralTimeSlab_def general_iterate_def general_slab_def rejected_by_iteration_def
      reset_u_def stabilize_objs Let_def split: prod.splits)

lemma createTimeSlab_rejected:
  assumes "createTimeSlab c s = Some (False, s')"
  shows "\<exists>w. s' = s\<lparr>objs := w\<rparr>"
proof (cases "t s = 0")
  case True
  with assms have "createFirstTimeSlab c s = Some (False, s')" by (simp add: createTimeSlab_def)
  then show ?thesis
    by (auto simp: createFirstTimeSlab_unfold rejected_by_iteration_def
        split: if_splits dest: accept_slab_fields(1))
next
  case False
  with assms have "createGeneralTimeSlab c s = Some (False, s')" by (simp add: createTimeSlab_def)
  then show ?thesis
    by (auto simp: createGeneralTimeSlab_unfold rejected_by_iteration_def
        split: if_splits dest: accept_slab_fields(1))
qed

lemma createTimeSlab_rejected_fields:
  assumes "createTimeSlab c s = Some (False, s')"
  shows "t s' = t s" and "T s' = T s" and "p s' = p s" and "finished s' = finished s"
    and "sample_file s' = sample_file s" and "no_samples s' = no_samples s"
    and "save_solution s' = save_solution s" and "N s' = N s"
  using createTimeSlab_rejected [OF assms] by auto

lemma createTimeSlab_accepted:
  assumes "createTimeSlab c s = Some (True, s')"
  shows "\<exists>w. accept_slab c (next_slab c s) (s\<lparr>objs := w\<rparr>) = Some (True, s')"
proof (cases "t s = 0")
  case True
  with assms have "createFirstTimeSlab c s = Some (True, s')" by (simp add: createTimeSlab_def)
  with True show ?thesis
    by (auto simp: createFirstTimeSlab_unfold next_slab_def split: if_splits)
next
  case False
  with assms have "createGeneralTimeSlab c s = Some (True, s')" by (simp add: createTimeSlab_def)
  with False show ?thesis
    by (auto simp: createGeneralTimeSlab_unfold next_slab_def split: if_splits)
qed

lemma next_slab_fields:
  "starttime (next_slab c s) = t s" "slab_T (next_slab c s) = T s"
  by (simp_all add: next_slab_def first_slab_def general_slab_def)

lemma next_slab_bounds:
  assumes "slab_ends_ok c" "t s < T s"
  shows "t s < endtime (next_slab c s)" "endtime (next_slab c s) \<le> T s"
  using assms by (simp_all add: slab_ends_ok_def next_slab_def first_slab_def general_slab_def)

section \<open>Invariants of a run\<close>


lemma run_invariant:
  assumes ends: "slab_ends_ok c" and T0: "0 < T s0" and t0: "t s0 = 0" and f0: "\<not> finished s0"
    and r: "run c s0 h s"
  shows "T s = T s0 \<and> no_samples s = no_samples s0 \<and> save_solution s = save_solution s0 \<and>
         0 \<le> t s \<and> t s \<le> T s \<and> (finished s \<longleftrightarrow> t s = T s) \<and> (t s = 0 \<longleftrightarrow> True \<notin> set h)"
  using r
proof (induction rule: run.induct)
  case run_start
  show ?case using T0 t0 f0 by simp
next
  case (run_attempt h s ok s1)
  then have inv: "T s = T s0" "no_samples s = no_samples s0" "save_solution s = save_solution s0"
    "0 \<le> t s" "t s \<le> T s" "t s \<noteq> T s" "t s = 0 \<longleftrightarrow> True \<notin> set h"
    by simp_all
  show ?case
  proof (cases ok)
    case False
    with run_attempt.hyps have rej: "createTimeSlab c s = Some (False, s1)" by simp
    note createTimeSlab_rejected_fields [OF rej]
    with inv run_attempt.hyps(2) False show ?thesis by simp
  next
    case True
    with run_attempt.hyps have cts: "createTimeSlab c s = Some (True, s1)" by simp
    from createTimeSlab_accepted [OF cts] obtain w where
      acc: "accept_slab c (next_slab c s) (s\<lparr>objs := w\<rparr>) = Some (True, s1)" by blast
    note f = accept_slab_world_only [OF acc]
    from inv have lt: "t s < T s" by simp
    note b = next_slab_bounds [OF ends lt]
    have fin: "slab_finished (next_slab c s) \<longleftrightarrow> endtime (next_slab c s) = T s"
      by (simp add: slab_finished_def next_slab_fields)
    from f inv b fin run_attempt.hyps(2) True show ?thesis by auto
  qed
qed

section \<open>The retry loop of \<^verbatim>\<open>step\<close> and the loop of \<^verbatim>\<open>solve\<close>\<close>

lemma step_from_retry:
  "retry c n s = Some s1 \<Longrightarrow> createTimeSlab c s1 = Some (True, s') \<Longrightarrow>
   step c s = Some (t s', s')"
proof (induction n arbitrary: s)
  case 0
  then show ?case by (subst step.simps) simp
next
  case (Suc n)
  from Suc.prems(1) obtain s2 where
    rej: "createTimeSlab c s = Some (False, s2)" and rest: "retry c n s2 = Some s1"
    by (auto split: option.splits bool.splits)
  from Suc.IH [OF rest Suc.prems(2)] rej show ?case by (subst step.simps) simp
qed

lemma step_to_retry:
  assumes "step c s = Some y"
  shows "\<exists>n s1. retry c n s = Some s1 \<and> createTimeSlab c s1 = Some (True, snd y) \<and> fst y = t (snd y)"
proof (rule step.raw_induct
    [where P = "\<lambda>c s y. \<exists>n s1. retry c n s = Some s1 \<and>
                  createTimeSlab c s1 = Some (True, snd y) \<and> fst y = t (snd y)", OF _ assms])
  fix step' :: "'a collab \<Rightarrow> 'a stepper \<Rightarrow> (real \<times> 'a stepper) option" and c s y
  assume IH: "\<And>c s y. step' c s = Some y \<Longrightarrow>
      \<exists>n s1. retry c n s = Some s1 \<and> createTimeSlab c s1 = Some (True, snd y) \<and> fst y = t (snd y)"
    and body: "(case createTimeSlab c s of None \<Rightarrow> None
                | Some (ok, s1) \<Rightarrow> if ok then Some (t s1, s1) else step' c s1) = Some y"
  show "\<exists>n s1. retry c n s = Some s1 \<and> createTimeSlab c s1 = Some (True, snd y) \<and> fst y = t (snd y)"
  proof (cases "createTimeSlab c s")
    case None
    with body show ?thesis by simp
  next
    case (Some r)
    obtain ok s2 where r: "r = (ok, s2)" by (cases r)
    show ?thesis
    proof (cases ok)
      case True
      with body Some r have "y = (t s2, s2)" by simp
      with Some r True
      have "retry c 0 s = Some s \<and> createTimeSlab c s = Some (True, snd y) \<and> fst y = t (snd y)"
        by simp
      then show ?thesis by blast
    next
      case False
      with body Some r have "step' c s2 = Some y" by simp
      from IH [OF this] obtain n s1 where
        "retry c n s2 = Some s1" "createTimeSlab c s1 = Some (True, snd y)" "fst y = t (snd y)"
        by blast
      with Some r False
      have "retry c (Suc n) s = Some s1 \<and> createTimeSlab c s1 = Some (True, snd y) \<and> fst y = t (snd y)"
        by simp
      then show ?thesis by blast
    qed
  qed
qed

lemma retry_run:
  "retry c n s = Some s1 \<Longrightarrow> run c s0 h s \<Longrightarrow> \<not> finished s \<Longrightarrow>
   run c s0 (h @ replicate n False) s1 \<and> \<not> finished s1"
proof (induction n arbitrary: s h)
  case 0
  then show ?case by simp
next
  case (Suc n)
  from Suc.prems(1) obtain s2 where
    rej: "createTimeSlab c s = Some (False, s2)" and rest: "retry c n s2 = Some s1"
    by (auto split: option.splits bool.splits)
  from createTimeSlab_rejected_fields(4) [OF rej] Suc.prems(3) have nf: "\<not> finished s2" by simp
  from run_attempt [OF Suc.prems(2) Suc.prems(3) rej] have "run c s0 (h @ [False]) s2" .
  from Suc.IH [OF rest this nf] show ?case by (simp add: replicate_app_Cons_same)
qed

lemma step_run:
  assumes "step c s = Some (tm, s')" and "run c s0 h s" and "\<not> finished s"
  shows "\<exists>h'. run c s0 h' s'"
proof -
  from step_to_retry [OF assms(1)] obtain n s1 where
    re: "retry c n s = Some s1" and acc: "createTimeSlab c s1 = Some (True, s')" by auto
  from retry_run [OF re assms(2,3)] have "run c s0 (h @ replicate n False) s1" "\<not> finished s1"
    by simp_all
  from run_attempt [OF this acc] show ?thesis by blast
qed

lemma solve_loop_run:
  assumes "solve_loop c s = Some s'"
  shows "\<forall>s0 h. run c s0 h s \<longrightarrow> (\<exists>h'. run c s0 h' s' \<and> finished s')"
proof (rule solve_loop.raw_induct
    [where P = "\<lambda>c s s'. \<forall>s0 h. run c s0 h s \<longrightarrow> (\<exists>h'. run c s0 h' s' \<and> finished s')", OF _ assms])
  fix loop' :: "'a collab \<Rightarrow> 'a stepper \<Rightarrow> 'a stepper option" and c s s'
  assume IH: "\<And>c s s'. loop' c s = Some s' \<Longrightarrow>
      \<forall>s0 h. run c s0 h s \<longrightarrow> (\<exists>h'. run c s0 h' s' \<and> finished s')"
    and body: "(if \<not> finished s then
                  (case step c s of None \<Rightarrow> None | Some (tm, s1) \<Rightarrow> loop' c s1)
                else Some s) = Some s'"
  show "\<forall>s0 h. run c s0 h s \<longrightarrow> (\<exists>h'. run c s0 h' s' \<and> finished s')"
  proof (intro allI impI)
    fix s0 h
    assume r: "run c s0 h s"
    show "\<exists>h'. run c s0 h' s' \<and> finished s'"
    proof (cases "finished s")
      case True
      with body r show ?thesis by auto
    next
      case False
      with body obtain tm s1 where st: "step c s = Some (tm, s1)" and l: "loop' c s1 = Some s'"
        by (auto split: option.splits)
      from step_run [OF st r False] obtain h1 where "run c s0 h1 s1" by blast
      with IH [OF l] show ?thesis by blast
    qed
  qed
qed


section \<open>The example collaborators\<close>

lemma demo_slab_ends_ok: "slab_ends_ok demo"
  by (simp add: slab_ends_ok_def demo_def demo_end_def)

lemma demo_keeps_committed: "keeps_committed demo"
  by (simp add: keeps_committed_def same_commit_def demo_def demo_end_def)

lemma demo_init: "TimeStepper 5 1 10 True (demo_world k) = Inr (demo_stepper k)"
  by (simp add: TimeStepper_def demo_stepper_def)

section \<open>Construction\<close>

text \<open>
  Claim C9, as stated: a configuration with \<open>N = 0\<close>, \<open>T \<le> 0\<close> or a sample count
  \<open>\<le> 0\<close> is rejected when the stepper is constructed. It is not: with all three at once
  (\<open>N = 0\<close>, \<open>T = - 1\<close>, no samples) the constructor returns a stepper.
\<close>

theorem constructor_accepts_invalid_configuration_counterexample:
  "TimeStepper 0 0 (- 1) True (demo_world 1) =
     Inr \<lparr>no_samples = 0, N = 0, t = 0, T = - 1, objs = demo_world 1, sample_file = [],
          p = Some 0, finished = False, save_solution = True\<rparr>"
  by (simp add: TimeStepper_def)

text \<open>
  Claim C9, amended: the constructor validates nothing. For every sample count, size and
  end time it returns a stepper that holds these values as given, with \<open>t = 0\<close>, the
  finished flag false and no sample written.
\<close>

theorem constructor_never_rejects:
  "\<exists>s. TimeStepper samples n endtm sv w0 = Inr s \<and> no_samples s = samples \<and> N s = n \<and>
       T s = endtm \<and> t s = 0 \<and> \<not> finished s \<and> sample_file s = [] \<and> objs s = w0"
  by (simp add: TimeStepper_def)

section \<open>Stabilization\<close>

text \<open>
  Claim C10: \<^verbatim>\<open>TimeStepper::stabilize\<close> queries the engine with \<open>alpha = 1\<close> and
  \<open>m = 0\<close>; if the engine leaves both unchanged, the controller receives \<open>k = 0.5 * K\<close>
  and \<open>m = 0\<close>. The step \<open>k = min(alpha, 0.5) * K\<close> has no positive lower bound: when
  the engine reports \<open>alpha \<le> 0\<close> and \<open>K > 0\<close>, the value handed to
  \<^verbatim>\<open>adaptivity.stabilize\<close>, as computed, is \<open>\<le> 0\<close>.
\<close>

theorem stabilize_defaults_and_no_lower_bound:
  "(fst (fixpoint_stabilization c 1 0 (objs s)) = (1, 0) \<longrightarrow>
      objs (stabilize c K s) =
        adaptivity_stabilize c (0.5 * K) 0 (snd (fixpoint_stabilization c 1 0 (objs s)))) \<and>
   (fixpoint_stabilization c 1 0 (objs s) = ((alpha, m), w1) \<and> alpha \<le> 0 \<and> 0 < K \<longrightarrow>
      objs (stabilize c K s) = adaptivity_stabilize c (min alpha 0.5 * K) m w1 \<and>
      min alpha 0.5 * K \<le> 0)"
proof (intro conjI impI)
  assume "fst (fixpoint_stabilization c 1 0 (objs s)) = (1, 0)"
  then show "objs (stabilize c K s) =
        adaptivity_stabilize c (0.5 * K) 0 (snd (fixpoint_stabilization c 1 0 (objs s)))"
    by (simp add: stabilize_objs)
next
  assume a: "fixpoint_stabilization c 1 0 (objs s) = ((alpha, m), w1) \<and> alpha \<le> 0 \<and> 0 < K"
  then show "objs (stabilize c K s) = adaptivity_stabilize c (min alpha 0.5 * K) m w1"
    by (simp add: stabilize_objs)
  from a have "min alpha 0.5 = alpha" by simp
  with a show "min alpha 0.5 * K \<le> 0" by (simp add: mult_le_0_iff)
qed

theorem stabilize_defaults_and_no_lower_bound_witness:
  "others (objs (stabilize demo 10 (demo_stepper 7))) = 5 \<and>
   others (objs (stabilize pessimist 10 (demo_stepper 7))) = - 10"
proof -
  have h1: "fst (fixpoint_stabilization demo 1 0 (objs (demo_stepper 7))) = (1, 0)"
    by (simp add: demo_def)
  have h2: "fixpoint_stabilization pessimist 1 0 (objs (demo_stepper 7)) =
              ((- 1, 3), demo_world 7) \<and> (- 1 :: real) \<le> 0 \<and> (0 :: real) < 10"
    by (simp add: pessimist_def demo_def demo_stepper_def)
  from stabilize_defaults_and_no_lower_bound [of demo "demo_stepper 7" 10 "- 1" 3 "demo_world 7"] h1
  have r1: "objs (stabilize demo 10 (demo_stepper 7)) =
        adaptivity_stabilize demo (0.5 * 10) 0 (snd (fixpoint_stabilization demo 1 0 (objs (demo_stepper 7))))"
    by blast
  from stabilize_defaults_and_no_lower_bound [of pessimist "demo_stepper 7" 10 "- 1" 3 "demo_world 7"] h2
  have r2: "objs (stabilize pessimist 10 (demo_stepper 7)) =
        adaptivity_stabilize pessimist (min (- 1) 0.5 * 10) 3 (demo_world 7)"
    by blast
  show ?thesis
    unfolding r1 r2 by (simp add: demo_def pessimist_def)
qed

section \<open>Rolling back\<close>

lemma keeps_committedD:
  assumes "keeps_committed c"
  shows "same_commit w (snd (new_SimpleTimeSlab c t0 tend w))"
    and "same_commit w (snd (new_RecursiveTimeSlab c t0 tend w))"
    and "same_commit w (snd (fixpoint_iterate c sl w))"
    and "same_commit w (snd (fixpoint_stabilization c a m w))"
    and "same_commit w (snd (adaptivity_accept c sl w))"
    and "same_commit w (adaptivity_shift c w)"
    and "same_commit w (adaptivity_stabilize c k m w)"
  using assms unfolding keeps_committed_def by blast+

lemma same_commit_trans: "same_commit w1 w2 \<Longrightarrow> same_commit w2 w3 \<Longrightarrow> same_commit w1 w3"
  by (simp add: same_commit_def)

lemma reset_restores:
  assumes "same_commit w0 w" and "current (u w0) = committed (u w0)"
  shows "u (reset_u w) = u w0"
  using assms by (simp add: same_commit_def reset_u_def u_reset_def)

lemma first_iterate_commit:
  assumes "keeps_committed c"
  shows "same_commit (objs s) (snd (first_iterate c s))"
  unfolding first_iterate_def
  by (rule same_commit_trans [OF keeps_committedD(1) [OF assms] keeps_committedD(3) [OF assms]])

lemma general_iterate_commit:
  assumes "keeps_committed c"
  shows "same_commit (objs s) (snd (general_iterate c s))"
  unfolding general_iterate_def
  by (rule same_commit_trans [OF keeps_committedD(2) [OF assms] keeps_committedD(3) [OF assms]])

lemma stabilize_commit:
  assumes "keeps_committed c"
  shows "same_commit w (objs (stabilize c K (s\<lparr>objs := w\<rparr>)))"
  using same_commit_trans [OF keeps_committedD(4) [OF assms] keeps_committedD(7) [OF assms]]
  by (simp add: stabilize_objs)

text \<open>
  Every attempt that returns leaves the Solution State committed: its last operation on
  \<^verbatim>\<open>u\<close> is \<^verbatim>\<open>u.reset()\<close> or \<^verbatim>\<open>u.shift(t)\<close>. So each attempt after the first starts
  from a committed state.
\<close>

lemma attempt_leaves_committed:
  assumes "createTimeSlab c s = Some (ok, s')"
  shows "current (u (objs s')) = committed (u (objs s'))"
proof (cases ok)
  case True
  with assms have "createTimeSlab c s = Some (True, s')" by simp
  from createTimeSlab_accepted [OF this] obtain w where
    "accept_slab c (next_slab c s) (s\<lparr>objs := w\<rparr>) = Some (True, s')" by blast
  from accept_slab_fields(9) [OF this] show ?thesis by (simp add: shift_def u_shift_def Let_def)
next
  case False
  with assms have rej: "createTimeSlab c s = Some (False, s')" by simp
  show ?thesis
  proof (cases "t s = 0")
    case True
    with rej have "createFirstTimeSlab c s = Some (False, s')" by (simp add: createTimeSlab_def)
    then show ?thesis
      by (auto simp: createFirstTimeSlab_unfold rejected_by_iteration_def reset_u_def u_reset_def
          split: if_splits dest: accept_slab_fields(1))
  next
    case False
    with rej have "createGeneralTimeSlab c s = Some (False, s')" by (simp add: createTimeSlab_def)
    then show ?thesis
      by (auto simp: createGeneralTimeSlab_unfold rejected_by_iteration_def reset_u_def u_reset_def
          split: if_splits dest: accept_slab_fields(1))
  qed
qed

lemma rejected_by_iteration_fields:
  "t (rejected_by_iteration c sl w2 s) = t s"
  "p (rejected_by_iteration c sl w2 s) = p s"
  "finished (rejected_by_iteration c sl w2 s) = finished s"
  "sample_file (rejected_by_iteration c sl w2 s) = sample_file s"
  "objs (rejected_by_iteration c sl w2 s) =
     reset_u (objs (stabilize c (slab_length sl) (s\<lparr>objs := w2\<rparr>)))"
  by (simp_all add: rejected_by_iteration_def)

lemma rejected_by_iteration_rollback:
  assumes "keeps_committed c" and "same_commit (objs s) w2"
    and "current (u (objs s)) = committed (u (objs s))"
  shows "u (objs (rejected_by_iteration c sl w2 s)) = u (objs s)"
  unfolding rejected_by_iteration_fields
  by (rule reset_restores [OF same_commit_trans [OF assms(2) stabilize_commit [OF assms(1)]] assms(3)])
section \<open>Rejection when the iteration fails\<close>

text \<open>
  Claim C3: in both slab paths, when the fixed-point iteration does not converge, the
  stepper calls \<^verbatim>\<open>stabilize\<close> with the length of the rejected slab, then
  \<^verbatim>\<open>u.reset()\<close>, and returns false; \<open>t\<close>, the progress and the finished flag are
  unchanged and no sample is written. When the collaborators leave the committed values
  alone and the attempt started from a committed state, the Solution State after the
  rejection is the one before the attempt.
\<close>

theorem iteration_failure_rejects:
  "(\<not> fst (first_iterate c s) \<longrightarrow>
      (\<exists>s'. createFirstTimeSlab c s = Some (False, s') \<and>
         objs s' = reset_u (objs (stabilize c (slab_length (first_slab c s))
                                    (s\<lparr>objs := snd (first_iterate c s)\<rparr>))) \<and>
         t s' = t s \<and> p s' = p s \<and> finished s' = finished s \<and> sample_file s' = sample_file s \<and>
         (keeps_committed c \<and> current (u (objs s)) = committed (u (objs s)) \<longrightarrow>
            u (objs s') = u (objs s)))) \<and>
   (\<not> fst (general_iterate c s) \<longrightarrow>
      (\<exists>s'. createGeneralTimeSlab c s = Some (False, s') \<and>
         objs s' = reset_u (objs (stabilize c (slab_length (general_slab c s))
                                    (s\<lparr>objs := snd (general_iterate c s)\<rparr>))) \<and>
         t s' = t s \<and> p s' = p s \<and> finished s' = finished s \<and> sample_file s' = sample_file s \<and>
         (keeps_committed c \<and> current (u (objs s)) = committed (u (objs s)) \<longrightarrow>
            u (objs s') = u (objs s))))"
proof (intro conjI impI)
  assume fail: "\<not> fst (first_iterate c s)"
  let ?s' = "rejected_by_iteration c (first_slab c s) (snd (first_iterate c s)) s"
  have "createFirstTimeSlab c s = Some (False, ?s')"
    using fail by (simp add: createFirstTimeSlab_unfold)
  moreover have "keeps_committed c \<and> current (u (objs s)) = committed (u (objs s)) \<longrightarrow>
      u (objs ?s') = u (objs s)"
    using rejected_by_iteration_rollback [OF _ first_iterate_commit] by blast
  ultimately show "\<exists>s'. createFirstTimeSlab c s = Some (False, s') \<and>
         objs s' = reset_u (objs (stabilize c (slab_length (first_slab c s))
                                    (s\<lparr>objs := snd (first_iterate c s)\<rparr>))) \<and>
         t s' = t s \<and> p s' = p s \<and> finished s' = finished s \<and> sample_file s' = sample_file s \<and>
         (keeps_committed c \<and> current (u (objs s)) = committed (u (objs s)) \<longrightarrow>
            u (objs s') = u (objs s))"
    by (intro exI [of _ ?s']) (simp add: rejected_by_iteration_fields)
next
  assume fail: "\<not> fst (general_iterate c s)"
  let ?s' = "rejected_by_iteration c (general_slab c s) (snd (general_iterate c s)) s"
  have "createGeneralTimeSlab c s = Some (False, ?s')"
    using fail by (simp add: createGeneralTimeSlab_unfold)
  moreover have "keeps_committed c \<and> current (u (objs s)) = committed (u (objs s)) \<longrightarrow>
      u (objs ?s') = u (objs s)"
    using rejected_by_iteration_rollback [OF _ general_iterate_commit] by blast
  ultimately show "\<exists>s'. createGeneralTimeSlab c s = Some (False, s') \<and>
         objs s' = reset_u (objs (stabilize c (slab_length (general_slab c s))
                                    (s\<lparr>objs := snd (general_iterate c s)\<rparr>))) \<and>
         t s' = t s \<and> p s' = p s \<and> finished s' = finished s \<and> sample_file s' = sample_file s \<and>
         (keeps_committed c \<and> current (u (objs s)) = committed (u (objs s)) \<longrightarrow>
            u (objs s') = u (objs s))"
    by (intro exI [of _ ?s']) (simp add: rejected_by_iteration_fields)
qed

theorem iteration_failure_rejects_witness:
  "(\<exists>s'. createFirstTimeSlab demo (demo_stepper 7) = Some (False, s') \<and>
        others (objs s') = 7 / 2 \<and> u (objs s') = u (demo_world 7) \<and> t s' = 0 \<and>
        \<not> finished s' \<and> sample_file s' = []) \<and>
   (\<exists>s'. createGeneralTimeSlab demo (demo_midrun 6) = Some (False, s') \<and>
        others (objs s') = 3 \<and> u (objs s') = u (demo_world 6) \<and> t s' = 3 \<and>
        \<not> finished s' \<and> sample_file s' = [0, 2])"
proof -
  have f1: "\<not> fst (first_iterate demo (demo_stepper 7))"
    by (simp add: first_iterate_def first_slab_def demo_def demo_end_def demo_stepper_def
        demo_world_def slab_length_def)
  have f2: "\<not> fst (general_iterate demo (demo_midrun 6))"
    by (simp add: general_iterate_def general_slab_def demo_def demo_end_def demo_midrun_def
        demo_stepper_def demo_world_def slab_length_def)
  have k1: "keeps_committed demo \<and>
      current (u (objs (demo_stepper 7))) = committed (u (objs (demo_stepper 7)))"
    by (simp add: demo_keeps_committed demo_stepper_def demo_world_def)
  have k2: "keeps_committed demo \<and>
      current (u (objs (demo_midrun 6))) = committed (u (objs (demo_midrun 6)))"
    by (simp add: demo_keeps_committed demo_midrun_def demo_stepper_def demo_world_def)
  from iteration_failure_rejects [of demo "demo_stepper 7"] f1 k1
  obtain s1 where s1: "createFirstTimeSlab demo (demo_stepper 7) = Some (False, s1)"
    "objs s1 = reset_u (objs (stabilize demo (slab_length (first_slab demo (demo_stepper 7)))
                                ((demo_stepper 7)\<lparr>objs := snd (first_iterate demo (demo_stepper 7))\<rparr>)))"
    "t s1 = t (demo_stepper 7)" "finished s1 = finished (demo_stepper 7)"
    "sample_file s1 = sample_file (demo_stepper 7)" "u (objs s1) = u (objs (demo_stepper 7))"
    by blast
  from iteration_failure_rejects [of demo "demo_midrun 6"] f2 k2
  obtain s2 where s2: "createGeneralTimeSlab demo (demo_midrun 6) = Some (False, s2)"
    "objs s2 = reset_u (objs (stabilize demo (slab_length (general_slab demo (demo_midrun 6)))
                                ((demo_midrun 6)\<lparr>objs := snd (general_iterate demo (demo_midrun 6))\<rparr>)))"
    "t s2 = t (demo_midrun 6)" "finished s2 = finished (demo_midrun 6)"
    "sample_file s2 = sample_file (demo_midrun 6)" "u (objs s2) = u (objs (demo_midrun 6))"
    by blast
  have o1: "others (objs s1) = 7 / 2"
    unfolding s1(2)
    by (simp add: reset_u_def stabilize_objs first_iterate_def first_slab_def slab_length_def
        demo_def demo_end_def demo_stepper_def demo_world_def)
  have o2: "others (objs s2) = 3"
    unfolding s2(2)
    by (simp add: reset_u_def stabilize_objs general_iterate_def general_slab_def slab_length_def
        demo_def demo_end_def demo_midrun_def demo_stepper_def demo_world_def)
  from s1 o1 have "createFirstTimeSlab demo (demo_stepper 7) = Some (False, s1) \<and>
        others (objs s1) = 7 / 2 \<and> u (objs s1) = u (demo_world 7) \<and> t s1 = 0 \<and>
        \<not> finished s1 \<and> sample_file s1 = []"
    by (simp add: demo_stepper_def)
  moreover from s2 o2 have "createGeneralTimeSlab demo (demo_midrun 6) = Some (False, s2) \<and>
        others (objs s2) = 3 \<and> u (objs s2) = u (demo_world 6) \<and> t s2 = 3 \<and>
        \<not> finished s2 \<and> sample_file s2 = [0, 2]"
    by (simp add: demo_midrun_def demo_stepper_def)
  ultimately show ?thesis by blast
qed

section \<open>The stabilized step\<close>

text \<open>
  Claim C5: on every iteration failure, in either slab path, the step length handed to
  \<^verbatim>\<open>adaptivity.stabilize\<close> is \<open>min(alpha, 0.5) * K\<close>, where \<open>K\<close> is the length of
  the rejected slab and \<open>alpha\<close> the damping factor the engine reports; for a slab that
  does not end before it starts, this is at most half of \<open>K\<close>, whatever \<open>alpha\<close> is.
\<close>

theorem stabilized_step_at_most_half:
  "(\<not> fst (first_iterate c s) \<and>
    fixpoint_stabilization c 1 0 (snd (first_iterate c s)) = ((alpha, m), w3) \<longrightarrow>
      (\<exists>s'. createFirstTimeSlab c s = Some (False, s') \<and>
         objs s' = reset_u (adaptivity_stabilize c
                     (min alpha 0.5 * slab_length (first_slab c s)) m w3)) \<and>
      (starttime (first_slab c s) \<le> endtime (first_slab c s) \<longrightarrow>
         min alpha 0.5 * slab_length (first_slab c s) \<le> slab_length (first_slab c s) / 2)) \<and>
   (\<not> fst (general_iterate c s) \<and>
    fixpoint_stabilization c 1 0 (snd (general_iterate c s)) = ((alpha, m), w3) \<longrightarrow>
      (\<exists>s'. createGeneralTimeSlab c s = Some (False, s') \<and>
         objs s' = reset_u (adaptivity_stabilize c
                     (min alpha 0.5 * slab_length (general_slab c s)) m w3)) \<and>
      (starttime (general_slab c s) \<le> endtime (general_slab c s) \<longrightarrow>
         min alpha 0.5 * slab_length (general_slab c s) \<le> slab_length (general_slab c s) / 2))"
proof -
  have half: "min alpha 0.5 * slab_length sl \<le> slab_length sl / 2"
    if "starttime sl \<le> endtime sl" for sl
  proof -
    from that have "0 \<le> slab_length sl" by (simp add: slab_length_def)
    then have "min alpha 0.5 * slab_length sl \<le> 0.5 * slab_length sl"
      by (intro mult_right_mono) simp_all
    then show ?thesis by simp
  qed
  have e1: "\<exists>s'. createFirstTimeSlab c s = Some (False, s') \<and>
         objs s' = reset_u (adaptivity_stabilize c
                     (min alpha 0.5 * slab_length (first_slab c s)) m w3)"
    if "\<not> fst (first_iterate c s)"
      and "fixpoint_stabilization c 1 0 (snd (first_iterate c s)) = ((alpha, m), w3)"
    using that by (simp add: createFirstTimeSlab_unfold rejected_by_iteration_def stabilize_objs)
  have e2: "\<exists>s'. createGeneralTimeSlab c s = Some (False, s') \<and>
         objs s' = reset_u (adaptivity_stabilize c
                     (min alpha 0.5 * slab_length (general_slab c s)) m w3)"
    if "\<not> fst (general_iterate c s)"
      and "fixpoint_stabilization c 1 0 (snd (general_iterate c s)) = ((alpha, m), w3)"
    using that by (simp add: createGeneralTimeSlab_unfold rejected_by_iteration_def stabilize_objs)
  from half [of "first_slab c s"] half [of "general_slab c s"] e1 e2 show ?thesis by blast
qed

theorem stabilized_step_at_most_half_witness:
  "(\<exists>s'. createFirstTimeSlab pessimist (demo_stepper 7) = Some (False, s') \<and>
        others (objs s') = - 7) \<and>
   (\<exists>s'. createGeneralTimeSlab demo (demo_midrun 6) = Some (False, s') \<and>
        others (objs s') = 3) \<and>
   min (- 1) 0.5 * slab_length (first_slab pessimist (demo_stepper 7)) \<le> (7 / 2 :: real) \<and>
   min 1 0.5 * slab_length (general_slab demo (demo_midrun 6)) \<le> (3 :: real)"
proof -
  have f1: "\<not> fst (first_iterate pessimist (demo_stepper 7)) \<and>
      fixpoint_stabilization pessimist 1 0 (snd (first_iterate pessimist (demo_stepper 7))) =
        ((- 1, 3), (demo_world 7)\<lparr>u := (u (demo_world 7))\<lparr>current := [2]\<rparr>\<rparr>)"
    by (simp add: first_iterate_def first_slab_def pessimist_def demo_def demo_end_def
        demo_stepper_def demo_world_def slab_length_def)
  have f2: "\<not> fst (general_iterate demo (demo_midrun 6)) \<and>
      fixpoint_stabilization demo 1 0 (snd (general_iterate demo (demo_midrun 6))) =
        ((1, 0), (demo_world 6)\<lparr>u := (u (demo_world 6))\<lparr>current := [2]\<rparr>\<rparr>)"
    by (simp add: general_iterate_def general_slab_def demo_def demo_end_def demo_midrun_def
        demo_stepper_def demo_world_def slab_length_def)
  have l1: "slab_length (first_slab pessimist (demo_stepper 7)) = 7"
    "starttime (first_slab pessimist (demo_stepper 7)) \<le> endtime (first_slab pessimist (demo_stepper 7))"
    by (simp_all add: first_slab_def pessimist_def demo_def demo_end_def
        demo_stepper_def demo_world_def slab_length_def)
  have l2: "slab_length (general_slab demo (demo_midrun 6)) = 6"
    "starttime (general_slab demo (demo_midrun 6)) \<le> endtime (general_slab demo (demo_midrun 6))"
    by (simp_all add: general_slab_def demo_def demo_end_def demo_midrun_def
        demo_stepper_def demo_world_def slab_length_def)
  from stabilized_step_at_most_half [of pessimist "demo_stepper 7" "- 1" 3
      "(demo_world 7)\<lparr>u := (u (demo_world 7))\<lparr>current := [2]\<rparr>\<rparr>"] f1 l1
  have r1: "(\<exists>s'. createFirstTimeSlab pessimist (demo_stepper 7) = Some (False, s') \<and>
         objs s' = reset_u (adaptivity_stabilize pessimist (min (- 1) 0.5 * 7) 3
                     ((demo_world 7)\<lparr>u := (u (demo_world 7))\<lparr>current := [2]\<rparr>\<rparr>)))"
    "min (- 1) 0.5 * slab_length (first_slab pessimist (demo_stepper 7)) \<le> (7 / 2 :: real)"
    by simp_all
  from stabilized_step_at_most_half [of demo "demo_midrun 6" 1 0
      "(demo_world 6)\<lparr>u := (u (demo_world 6))\<lparr>current := [2]\<rparr>\<rparr>"] f2 l2
  have r2: "(\<exists>s'. createGeneralTimeSlab demo (demo_midrun 6) = Some (False, s') \<and>
         objs s' = reset_u (adaptivity_stabilize demo (min 1 0.5 * 6) 0
                     ((demo_world 6)\<lparr>u := (u (demo_world 6))\<lparr>current := [2]\<rparr>\<rparr>)))"
    "min 1 0.5 * slab_length (general_slab demo (demo_midrun 6)) \<le> (3 :: real)"
    by simp_all
  from r1(1) obtain s1 where s1: "createFirstTimeSlab pessimist (demo_stepper 7) = Some (False, s1)"
    "objs s1 = reset_u (adaptivity_stabilize pessimist (min (- 1) 0.5 * 7) 3
                     ((demo_world 7)\<lparr>u := (u (demo_world 7))\<lparr>current := [2]\<rparr>\<rparr>))"
    by blast
  from r2(1) obtain s2 where s2: "createGeneralTimeSlab demo (demo_midrun 6) = Some (False, s2)"
    "objs s2 = reset_u (adaptivity_stabilize demo (min 1 0.5 * 6) 0
                     ((demo_world 6)\<lparr>u := (u (demo_world 6))\<lparr>current := [2]\<rparr>\<rparr>))"
    by blast
  have "others (objs s1) = - 7" unfolding s1(2) by (simp add: reset_u_def pessimist_def demo_def)
  moreover have "others (objs s2) = 3" unfolding s2(2) by (simp add: reset_u_def demo_def)
  ultimately show ?thesis using s1(1) s2(1) r1(2) r2(2) by blast
qed

section \<open>The general slab path\<close>

lemma stabilize_ignores_accept:
  "stabilize (c\<lparr>adaptivity_accept := ac\<rparr>) K s = stabilize c K s"
  "stabilize (c\<lparr>adaptivity_fixed := fx\<rparr>) K s = stabilize c K s"
  by (simp_all add: stabilize_def)

lemma shift_ignores_accept:
  "shift (c\<lparr>adaptivity_accept := ac\<rparr>) s = shift c s"
  "shift (c\<lparr>adaptivity_fixed := fx\<rparr>) s = shift c s"
  by (simp_all add: shift_def)

lemma accept_slab_ignores_accept:
  "accept_slab (c\<lparr>adaptivity_accept := ac\<rparr>) sl s = accept_slab c sl s"
  "accept_slab (c\<lparr>adaptivity_fixed := fx\<rparr>) sl s = accept_slab c sl s"
  by (simp_all add: accept_slab_def shift_ignores_accept cong: option.case_cong)

text \<open>
  Claim C2: \<^verbatim>\<open>createGeneralTimeSlab\<close>, the path taken whenever \<open>t \<noteq> 0\<close>, makes no
  residual acceptance check. Its result does not depend on \<^verbatim>\<open>adaptivity.fixed()\<close> or
  \<^verbatim>\<open>adaptivity.accept\<close>; once the iteration has converged the slab is never rejected,
  and whenever the function returns the slab has been accepted: the time is the slab's end
  time, the samples of the slab have been saved and the collaborators have been shifted.
  It does return when the sampling loop cannot run forever.
\<close>

theorem general_path_has_no_residual_check:
  "createGeneralTimeSlab (c\<lparr>adaptivity_fixed := fx, adaptivity_accept := ac\<rparr>) s =
     createGeneralTimeSlab c s \<and>
   (t s \<noteq> 0 \<longrightarrow> createTimeSlab c s = createGeneralTimeSlab c s) \<and>
   (fst (general_iterate c s) \<longrightarrow>
      createGeneralTimeSlab c s \<noteq> Some (False, s') \<and>
      (sampling_ok s \<longrightarrow> (\<exists>s1. createGeneralTimeSlab c s = Some (True, s1))) \<and>
      (createGeneralTimeSlab c s = Some (ok, s') \<longrightarrow>
         ok \<and> t s' = endtime (general_slab c s) \<and>
         objs s' = objs (shift c (s\<lparr>objs := snd (general_iterate c s),
                                    t := endtime (general_slab c s)\<rparr>)) \<and>
         save (general_slab c s)
              (s\<lparr>objs := snd (general_iterate c s), t := endtime (general_slab c s)\<rparr>) =
           Some (s\<lparr>objs := snd (general_iterate c s), t := endtime (general_slab c s),
                   sample_file := sample_file s'\<rparr>)))"
proof (intro conjI impI)
  show "createGeneralTimeSlab (c\<lparr>adaptivity_fixed := fx, adaptivity_accept := ac\<rparr>) s =
     createGeneralTimeSlab c s"
    by (simp add: createGeneralTimeSlab_def stabilize_ignores_accept accept_slab_ignores_accept
        Let_def split: prod.splits)
next
  assume "t s \<noteq> 0"
  then show "createTimeSlab c s = createGeneralTimeSlab c s" by (simp add: createTimeSlab_def)
next
  assume "fst (general_iterate c s)"
  then show "createGeneralTimeSlab c s \<noteq> Some (False, s')"
    by (simp add: createGeneralTimeSlab_unfold accept_slab_not_rejected)
next
  assume "fst (general_iterate c s)" "sampling_ok s"
  then show "\<exists>s1. createGeneralTimeSlab c s = Some (True, s1)"
    by (simp add: createGeneralTimeSlab_unfold accept_slab_returns)
next
  assume "fst (general_iterate c s)" "createGeneralTimeSlab c s = Some (ok, s')"
  then have acc: "accept_slab c (general_slab c s) (s\<lparr>objs := snd (general_iterate c s)\<rparr>) =
      Some (ok, s')"
    by (simp add: createGeneralTimeSlab_unfold)
  from accept_slab_fields(1) [OF acc] show "ok" .
  from accept_slab_fields(2) [OF acc] show "t s' = endtime (general_slab c s)" .
  from accept_slab_fields(9) [OF acc]
  show "objs s' = objs (shift c (s\<lparr>objs := snd (general_iterate c s),
                                    t := endtime (general_slab c s)\<rparr>))" by simp
  from accept_slab_fields(10) [OF acc]
  show "save (general_slab c s)
              (s\<lparr>objs := snd (general_iterate c s), t := endtime (general_slab c s)\<rparr>) =
           Some (s\<lparr>objs := snd (general_iterate c s), t := endtime (general_slab c s),
                   sample_file := sample_file s'\<rparr>)" by simp
qed

theorem general_path_has_no_residual_check_witness:
  "createGeneralTimeSlab demo (demo_midrun 4) = Some (True, demo_after_general) \<and>
   createTimeSlab demo (demo_midrun 4) = Some (True, demo_after_general) \<and>
   \<not> adaptivity_fixed demo (snd (general_iterate demo (demo_midrun 4))) \<and>
   \<not> fst (adaptivity_accept demo (general_slab demo (demo_midrun 4))
            (snd (general_iterate demo (demo_midrun 4)))) \<and>
   t demo_after_general = endtime (general_slab demo (demo_midrun 4)) \<and>
   (\<exists>s1. createGeneralTimeSlab demo (demo_midrun 4) = Some (True, s1))"
proof -
  have it: "fst (general_iterate demo (demo_midrun 4))" by code_simp
  have nz: "t (demo_midrun 4) \<noteq> 0" by code_simp
  have sok: "sampling_ok (demo_midrun 4)" by code_simp
  have ev: "createGeneralTimeSlab demo (demo_midrun 4) = Some (True, demo_after_general)"
    by code_simp
  have res: "\<not> adaptivity_fixed demo (snd (general_iterate demo (demo_midrun 4)))"
    "\<not> fst (adaptivity_accept demo (general_slab demo (demo_midrun 4))
            (snd (general_iterate demo (demo_midrun 4))))"
    by code_simp+
  from general_path_has_no_residual_check
    [where c = demo and fx = "\<lambda>w. False" and ac = "\<lambda>sl w. (False, w)"
      and s = "demo_midrun 4" and s' = demo_after_general and ok = True]
    it nz sok ev res
  show ?thesis by simp
qed

section \<open>The residual check of the first slab path\<close>

lemma first_iterate_ignores_accept:
  "first_iterate (c\<lparr>adaptivity_accept := ac\<rparr>) s = first_iterate c s"
  "first_slab (c\<lparr>adaptivity_accept := ac\<rparr>) s = first_slab c s"
  by (simp_all add: first_iterate_def first_slab_def)

lemma residual_rejection_rollback:
  assumes "keeps_committed c" and "current (u (objs s)) = committed (u (objs s))"
  shows "u (reset_u (adaptivity_shift c
            (snd (adaptivity_accept c (first_slab c s) (snd (first_iterate c s)))))) = u (objs s)"
  by (rule reset_restores
      [OF same_commit_trans
        [OF same_commit_trans
          [OF first_iterate_commit [OF assms(1)] keeps_committedD(5) [OF assms(1)]]
          keeps_committedD(6) [OF assms(1)]]
        assms(2)])

text \<open>
  Claim C6: in \<^verbatim>\<open>createFirstTimeSlab\<close>, after the iteration has converged, the residual
  check is made if and only if \<^verbatim>\<open>adaptivity.fixed()\<close> is false. In fixed-step mode the
  result does not depend on \<^verbatim>\<open>adaptivity.accept\<close> and the slab is never rejected. When
  the check is made and fails, \<^verbatim>\<open>adaptivity.shift\<close> is applied to the collaborators as
  the check left them (the solution not yet reset), then \<^verbatim>\<open>u.reset()\<close>, and the attempt
  is rejected with \<open>t\<close>, the progress, the finished flag and the sample file unchanged;
  when the check succeeds, the slab is accepted with the collaborators as the check left
  them.
\<close>

theorem first_path_residual_check:
  assumes "fst (first_iterate c s)"
  shows
  "(adaptivity_fixed c (snd (first_iterate c s)) \<longrightarrow>
      createFirstTimeSlab (c\<lparr>adaptivity_accept := ac\<rparr>) s = createFirstTimeSlab c s \<and>
      createFirstTimeSlab c s = accept_slab c (first_slab c s) (s\<lparr>objs := snd (first_iterate c s)\<rparr>) \<and>
      createFirstTimeSlab c s \<noteq> Some (False, s') \<and>
      (sampling_ok s \<longrightarrow> (\<exists>s1. createFirstTimeSlab c s = Some (True, s1)))) \<and>
   (\<not> adaptivity_fixed c (snd (first_iterate c s)) \<and>
    \<not> fst (adaptivity_accept c (first_slab c s) (snd (first_iterate c s))) \<longrightarrow>
      (\<exists>s1. createFirstTimeSlab c s = Some (False, s1) \<and>
         objs s1 = reset_u (adaptivity_shift c
                     (snd (adaptivity_accept c (first_slab c s) (snd (first_iterate c s))))) \<and>
         t s1 = t s \<and> p s1 = p s \<and> finished s1 = finished s \<and> sample_file s1 = sample_file s \<and>
         (keeps_committed c \<and> current (u (objs s)) = committed (u (objs s)) \<longrightarrow>
            u (objs s1) = u (objs s)))) \<and>
   (\<not> adaptivity_fixed c (snd (first_iterate c s)) \<and>
    fst (adaptivity_accept c (first_slab c s) (snd (first_iterate c s))) \<longrightarrow>
      createFirstTimeSlab c s =
        accept_slab c (first_slab c s)
          (s\<lparr>objs := snd (adaptivity_accept c (first_slab c s) (snd (first_iterate c s)))\<rparr>) \<and>
      createFirstTimeSlab c s \<noteq> Some (False, s') \<and>
      (sampling_ok s \<longrightarrow> (\<exists>s1. createFirstTimeSlab c s = Some (True, s1))))"
proof (intro conjI impI)
  assume fx: "adaptivity_fixed c (snd (first_iterate c s))"
  with assms show eq: "createFirstTimeSlab c s =
      accept_slab c (first_slab c s) (s\<lparr>objs := snd (first_iterate c s)\<rparr>)"
    by (simp add: createFirstTimeSlab_unfold)
  from fx assms have "createFirstTimeSlab (c\<lparr>adaptivity_accept := ac\<rparr>) s =
      accept_slab c (first_slab c s) (s\<lparr>objs := snd (first_iterate c s)\<rparr>)"
    by (simp add: createFirstTimeSlab_unfold first_iterate_ignores_accept accept_slab_ignores_accept)
  with eq show "createFirstTimeSlab (c\<lparr>adaptivity_accept := ac\<rparr>) s = createFirstTimeSlab c s"
    by simp
  show "createFirstTimeSlab c s \<noteq> Some (False, s')"
    unfolding eq by (rule accept_slab_not_rejected)
  show "\<exists>s1. createFirstTimeSlab c s = Some (True, s1)" if "sampling_ok s"
    unfolding eq by (rule accept_slab_returns [OF that])
next
  assume a: "\<not> adaptivity_fixed c (snd (first_iterate c s)) \<and>
    \<not> fst (adaptivity_accept c (first_slab c s) (snd (first_iterate c s)))"
  let ?w = "reset_u (adaptivity_shift c
              (snd (adaptivity_accept c (first_slab c s) (snd (first_iterate c s)))))"
  from a assms have "createFirstTimeSlab c s = Some (False, s\<lparr>objs := ?w\<rparr>)"
    by (simp add: createFirstTimeSlab_unfold)
  moreover have "keeps_committed c \<and> current (u (objs s)) = committed (u (objs s)) \<longrightarrow>
      u ?w = u (objs s)"
    using residual_rejection_rollback by blast
  ultimately show "\<exists>s1. createFirstTimeSlab c s = Some (False, s1) \<and>
         objs s1 = ?w \<and>
         t s1 = t s \<and> p s1 = p s \<and> finished s1 = finished s \<and> sample_file s1 = sample_file s \<and>
         (keeps_committed c \<and> current (u (objs s)) = committed (u (objs s)) \<longrightarrow>
            u (objs s1) = u (objs s))"
    by (intro exI [of _ "s\<lparr>objs := ?w\<rparr>"]) simp
next
  assume a: "\<not> adaptivity_fixed c (snd (first_iterate c s)) \<and>
    fst (adaptivity_accept c (first_slab c s) (snd (first_iterate c s)))"
  with assms show eq: "createFirstTimeSlab c s =
        accept_slab c (first_slab c s)
          (s\<lparr>objs := snd (adaptivity_accept c (first_slab c s) (snd (first_iterate c s)))\<rparr>)"
    by (simp add: createFirstTimeSlab_unfold)
  show "createFirstTimeSlab c s \<noteq> Some (False, s')"
    unfolding eq by (rule accept_slab_not_rejected)
  show "\<exists>s1. createFirstTimeSlab c s = Some (True, s1)" if "sampling_ok s"
    unfolding eq by (rule accept_slab_returns [OF that])
qed

theorem first_path_residual_check_witness:
  "createFirstTimeSlab (fixed_demo\<lparr>adaptivity_accept := (\<lambda>sl w. (False, w))\<rparr>) (demo_stepper (7 / 2)) =
     Some (True, demo_after_fixed) \<and>
   (\<exists>s1. createFirstTimeSlab demo (demo_stepper (7 / 2)) = Some (False, s1) \<and>
      others (objs s1) = 3 \<and> u (objs s1) = u (demo_world (7 / 2)) \<and>
      t s1 = 0 \<and> sample_file s1 = [] \<and> \<not> finished s1) \<and>
   accept_slab demo (first_slab demo (demo_stepper 3))
     ((demo_stepper 3)\<lparr>objs := snd (adaptivity_accept demo (first_slab demo (demo_stepper 3))
                                  (snd (first_iterate demo (demo_stepper 3))))\<rparr>) =
     Some (True, demo_after_first)"
proof -
  have c1: "fst (first_iterate fixed_demo (demo_stepper (7 / 2)))"
    "adaptivity_fixed fixed_demo (snd (first_iterate fixed_demo (demo_stepper (7 / 2))))"
    by code_simp+
  have e1: "createFirstTimeSlab fixed_demo (demo_stepper (7 / 2)) = Some (True, demo_after_fixed)"
    by code_simp
  have sok: "sampling_ok (demo_stepper (7 / 2))" by code_simp
  from first_path_residual_check
    [where c = fixed_demo and s = "demo_stepper (7 / 2)" and ac = "\<lambda>sl w. (False, w)", OF c1(1)]
    c1(2) e1 sok
  have r1: "createFirstTimeSlab (fixed_demo\<lparr>adaptivity_accept := (\<lambda>sl w. (False, w))\<rparr>)
      (demo_stepper (7 / 2)) = Some (True, demo_after_fixed)"
    by simp
  have c2: "fst (first_iterate demo (demo_stepper (7 / 2)))"
    "\<not> adaptivity_fixed demo (snd (first_iterate demo (demo_stepper (7 / 2)))) \<and>
     \<not> fst (adaptivity_accept demo (first_slab demo (demo_stepper (7 / 2)))
              (snd (first_iterate demo (demo_stepper (7 / 2)))))"
    by code_simp+
  have k2: "keeps_committed demo \<and>
      current (u (objs (demo_stepper (7 / 2)))) = committed (u (objs (demo_stepper (7 / 2))))"
    by (simp add: demo_keeps_committed demo_stepper_def demo_world_def)
  from first_path_residual_check [where c = demo and s = "demo_stepper (7 / 2)", OF c2(1)] c2(2) k2
  obtain s1 where s1: "createFirstTimeSlab demo (demo_stepper (7 / 2)) = Some (False, s1)"
    "objs s1 = reset_u (adaptivity_shift demo
        (snd (adaptivity_accept demo (first_slab demo (demo_stepper (7 / 2)))
                (snd (first_iterate demo (demo_stepper (7 / 2)))))))"
    "t s1 = t (demo_stepper (7 / 2))" "finished s1 = finished (demo_stepper (7 / 2))"
    "sample_file s1 = sample_file (demo_stepper (7 / 2))"
    "u (objs s1) = u (objs (demo_stepper (7 / 2)))"
    by blast
  have "others (objs s1) = 3" unfolding s1(2) by (simp add: reset_u_def demo_def)
  with s1 have r2: "createFirstTimeSlab demo (demo_stepper (7 / 2)) = Some (False, s1) \<and>
      others (objs s1) = 3 \<and> u (objs s1) = u (demo_world (7 / 2)) \<and>
      t s1 = 0 \<and> sample_file s1 = [] \<and> \<not> finished s1"
    by (simp add: demo_stepper_def)
  have c3: "fst (first_iterate demo (demo_stepper 3))"
    "\<not> adaptivity_fixed demo (snd (first_iterate demo (demo_stepper 3))) \<and>
     fst (adaptivity_accept demo (first_slab demo (demo_stepper 3))
              (snd (first_iterate demo (demo_stepper 3))))"
    by code_simp+
  have e3: "createFirstTimeSlab demo (demo_stepper 3) = Some (True, demo_after_first)"
    by code_simp
  from first_path_residual_check [where c = demo and s = "demo_stepper 3", OF c3(1)] c3(2) e3
  have r3: "accept_slab demo (first_slab demo (demo_stepper 3))
     ((demo_stepper 3)\<lparr>objs := snd (adaptivity_accept demo (first_slab demo (demo_stepper 3))
                                  (snd (first_iterate demo (demo_stepper 3))))\<rparr>) =
     Some (True, demo_after_first)"
    by simp
  from r1 r2 r3 show ?thesis by blast
qed

section \<open>\<^verbatim>\<open>step\<close>\<close>

lemma createTimeSlab_accepted_time:
  assumes "createTimeSlab c s = Some (True, s')"
  shows "t s' = endtime (next_slab c s)"
proof -
  from createTimeSlab_accepted [OF assms] obtain w where
    "accept_slab c (next_slab c s) (s\<lparr>objs := w\<rparr>) = Some (True, s')" by blast
  from accept_slab_fields(2) [OF this] show ?thesis .
qed

text \<open>
  Claim C4: \<^verbatim>\<open>step()\<close> returns exactly when, after some number \<open>n\<close> of attempts in a
  row that were rejected, an attempt is accepted; the stepper it leaves is the one after
  that accepted attempt and the value it returns is the new current time, the end time of
  the accepted slab. So no rejected attempt is ever the result of \<^verbatim>\<open>step()\<close>.
\<close>

theorem step_returns_first_accepted:
  "step c s = Some (tm, s') \<longleftrightarrow>
     (\<exists>n s1. retry c n s = Some s1 \<and> createTimeSlab c s1 = Some (True, s') \<and>
        tm = t s' \<and> tm = endtime (next_slab c s1))"
proof
  assume "step c s = Some (tm, s')"
  from step_to_retry [OF this] obtain n s1 where
    r: "retry c n s = Some s1" "createTimeSlab c s1 = Some (True, s')" "tm = t s'"
    by auto
  from createTimeSlab_accepted_time [OF r(2)] r
  show "\<exists>n s1. retry c n s = Some s1 \<and> createTimeSlab c s1 = Some (True, s') \<and>
        tm = t s' \<and> tm = endtime (next_slab c s1)"
    by auto
next
  assume "\<exists>n s1. retry c n s = Some s1 \<and> createTimeSlab c s1 = Some (True, s') \<and>
        tm = t s' \<and> tm = endtime (next_slab c s1)"
  then obtain n s1 where
    r: "retry c n s = Some s1" "createTimeSlab c s1 = Some (True, s')" "tm = t s'"
    by blast
  from step_from_retry [OF r(1,2)] r(3) show "step c s = Some (tm, s')" by simp
qed

theorem step_returns_first_accepted_witness:
  "step demo (demo_stepper 7) = Some (3, demo_after_first) \<and>
   retry demo 2 (demo_stepper 7) = Some (demo_stepper 3) \<and>
   (\<exists>n s1. retry demo n (demo_stepper 7) = Some s1 \<and>
      createTimeSlab demo s1 = Some (True, demo_after_first) \<and>
      3 = t demo_after_first \<and> 3 = endtime (next_slab demo s1))"
proof -
  have re: "retry demo 2 (demo_stepper 7) = Some (demo_stepper 3)" by code_simp
  have acc: "createTimeSlab demo (demo_stepper 3) = Some (True, demo_after_first)" by code_simp
  have tm: "3 = t demo_after_first" "3 = endtime (next_slab demo (demo_stepper 3))"
    by code_simp+
  from re acc tm have "\<exists>n s1. retry demo n (demo_stepper 7) = Some s1 \<and>
      createTimeSlab demo s1 = Some (True, demo_after_first) \<and>
      3 = t demo_after_first \<and> 3 = endtime (next_slab demo s1)"
    by blast
  then have st: "step demo (demo_stepper 7) = Some (3, demo_after_first)"
    by (rule step_returns_first_accepted [THEN iffD2])
  from step_returns_first_accepted [THEN iffD1, OF st] st re show ?thesis by blast
qed

section \<open>Time, progress and the finished flag over a run\<close>

lemma TimeStepper_fields:
  assumes "TimeStepper samples n endtm sv w0 = Inr s0"
  shows "t s0 = 0" and "T s0 = endtm" and "\<not> finished s0" and "sample_file s0 = []"
    and "no_samples s0 = samples" and "save_solution s0 = sv"
  using assms by (auto simp: TimeStepper_def)

lemma demo_run_two_rejections: "run demo (demo_stepper 7) [False, False] (demo_stepper 3)"
proof -
  have a1: "createTimeSlab demo (demo_stepper 7) = Some (False, demo_stepper (7 / 2))"
    by code_simp
  have a2: "createTimeSlab demo (demo_stepper (7 / 2)) = Some (False, demo_stepper 3)"
    by code_simp
  have nf: "\<not> finished (demo_stepper k)" for k by (simp add: demo_stepper_def)
  from run_attempt [OF run_attempt [OF run_start nf a1] nf a2] show ?thesis by simp
qed

text \<open>
  Claim C1, as stated: throughout a run \<open>0 \<le> t \<le> T\<close>. The constructor accepts any end
  time. Constructed with \<open>T = - 1\<close>, the stepper starts its run at \<open>t = 0\<close>, above \<open>T\<close>,
  and with the example collaborators the first slab is accepted and leaves \<open>t = - 1\<close>,
  below 0.
\<close>

theorem time_outside_interval_counterexample:
  "TimeStepper 5 1 (- 1) True (demo_world 1) = Inr demo_negative \<and>
   run demo demo_negative [] demo_negative \<and>
   \<not> (0 \<le> t demo_negative \<and> t demo_negative \<le> T demo_negative) \<and>
   run demo demo_negative [True] demo_negative_end \<and>
   \<not> (0 \<le> t demo_negative_end \<and> t demo_negative_end \<le> T demo_negative_end)"
proof -
  have i: "TimeStepper 5 1 (- 1) True (demo_world 1) = Inr demo_negative"
    by (simp add: TimeStepper_def demo_negative_def demo_stepper_def)
  have nf: "\<not> finished demo_negative" by code_simp
  have acc: "createTimeSlab demo demo_negative = Some (True, demo_negative_end)" by code_simp
  from run_attempt [OF run_start nf acc]
  have r: "run demo demo_negative [True] demo_negative_end" by simp
  have v: "\<not> (0 \<le> t demo_negative \<and> t demo_negative \<le> T demo_negative)"
    "\<not> (0 \<le> t demo_negative_end \<and> t demo_negative_end \<le> T demo_negative_end)"
    by code_simp+
  from i run_start r v show ?thesis by blast
qed

text \<open>
  Claim C1, amended: in a run over a positive end time \<open>T\<close>, with slabs that satisfy the
  slab invariant \<open>start < end \<le> T\<close>, \<open>t\<close> starts at 0 and stays within \<open>[0, T]\<close>; an
  attempt changes \<open>t\<close> only when it is accepted, and then sets it to the end time of the
  slab, which lies after the old \<open>t\<close>; the finished flag is set exactly when the end time
  of an accepted slab equals \<open>T\<close>, and the progress is then 1.
\<close>

theorem time_advances_only_on_acceptance:
  assumes "slab_ends_ok c" and "0 < endtm"
    and "TimeStepper samples n endtm sv w0 = Inr s0" and "run c s0 h s"
  shows "t s0 = 0 \<and> T s = endtm \<and> 0 \<le> t s \<and> t s \<le> T s \<and> (finished s \<longleftrightarrow> t s = T s) \<and>
    (\<not> finished s \<and> createTimeSlab c s = Some (ok, s') \<longrightarrow>
       (if ok then t s' = endtime (next_slab c s) \<and> t s < t s' \<and> t s' \<le> T s \<and>
                   (finished s' \<longleftrightarrow> endtime (next_slab c s) = T s) \<and>
                   (finished s' \<longrightarrow> p s' = Some 1)
        else t s' = t s \<and> p s' = p s \<and> finished s' = finished s))"
proof -
  note i = TimeStepper_fields [OF assms(3)]
  from assms(2) i have T0: "0 < T s0" by simp
  note inv = run_invariant [OF assms(1) T0 i(1) i(3) assms(4)]
  have att: "if ok then t s' = endtime (next_slab c s) \<and> t s < t s' \<and> t s' \<le> T s \<and>
                   (finished s' \<longleftrightarrow> endtime (next_slab c s) = T s) \<and>
                   (finished s' \<longrightarrow> p s' = Some 1)
        else t s' = t s \<and> p s' = p s \<and> finished s' = finished s"
    if nf: "\<not> finished s" and cts: "createTimeSlab c s = Some (ok, s')"
  proof (cases ok)
    case False
    with cts have "createTimeSlab c s = Some (False, s')" by simp
    from createTimeSlab_rejected_fields [OF this] False show ?thesis by simp
  next
    case True
    with cts have "createTimeSlab c s = Some (True, s')" by simp
    from createTimeSlab_accepted [OF this] obtain w where
      acc: "accept_slab c (next_slab c s) (s\<lparr>objs := w\<rparr>) = Some (True, s')" by blast
    note f = accept_slab_world_only [OF acc]
    from inv nf have lt: "t s < T s" by simp
    note b = next_slab_bounds [OF assms(1) lt]
    have fin: "slab_finished (next_slab c s) \<longleftrightarrow> endtime (next_slab c s) = T s"
      by (simp add: slab_finished_def next_slab_fields)
    from f b fin nf True show ?thesis by simp
  qed
  from i inv have base: "t s0 = 0 \<and> T s = endtm \<and> 0 \<le> t s \<and> t s \<le> T s \<and>
      (finished s \<longleftrightarrow> t s = T s)"
    by simp
  from att have "\<not> finished s \<and> createTimeSlab c s = Some (ok, s') \<longrightarrow>
       (if ok then t s' = endtime (next_slab c s) \<and> t s < t s' \<and> t s' \<le> T s \<and>
                   (finished s' \<longleftrightarrow> endtime (next_slab c s) = T s) \<and>
                   (finished s' \<longrightarrow> p s' = Some 1)
        else t s' = t s \<and> p s' = p s \<and> finished s' = finished s)"
    by blast
  with base show ?thesis by (elim conjE) (intro conjI, assumption+)
qed

theorem time_advances_only_on_acceptance_witness:
  "t (demo_stepper 7) = 0 \<and> t demo_after_first = 3 \<and>
   \<not> finished demo_after_first \<and> t (demo_stepper (7 / 2)) = t (demo_stepper 7) \<and>
   finished demo_short_finished \<and> p demo_short_finished = Some 1 \<and>
   t demo_short_finished = endtime (next_slab demo demo_short)"
proof -
  have pos: "(0 :: real) < 10" "(0 :: real) < 3" by simp_all
  have i2: "TimeStepper 5 1 3 True (demo_world 3) = Inr demo_short"
    by (simp add: TimeStepper_def demo_short_def demo_stepper_def)
  have a1: "\<not> finished (demo_stepper 7) \<and>
      createTimeSlab demo (demo_stepper 7) = Some (False, demo_stepper (7 / 2))"
    by code_simp
  have a2: "\<not> finished (demo_stepper 3) \<and>
      createTimeSlab demo (demo_stepper 3) = Some (True, demo_after_first)"
    by code_simp
  have a3: "\<not> finished demo_short \<and>
      createTimeSlab demo demo_short = Some (True, demo_short_finished)"
    by code_simp
  have e: "endtime (next_slab demo (demo_stepper 3)) = 3" "T (demo_stepper 3) = 10"
    "endtime (next_slab demo demo_short) = T demo_short"
    by code_simp+
  from time_advances_only_on_acceptance
    [OF demo_slab_ends_ok pos(1) demo_init run_start, of 7 False "demo_stepper (7 / 2)"] a1
  have r1: "t (demo_stepper 7) = 0 \<and> t (demo_stepper (7 / 2)) = t (demo_stepper 7)"
    by simp
  from time_advances_only_on_acceptance
    [OF demo_slab_ends_ok pos(1) demo_init demo_run_two_rejections, of True demo_after_first] a2 e
  have r2: "t demo_after_first = 3 \<and> \<not> finished demo_after_first"
    by simp
  from time_advances_only_on_acceptance
    [OF demo_slab_ends_ok pos(2) i2 run_start, of True demo_short_finished] a3 e
  have r3: "finished demo_short_finished \<and> p demo_short_finished = Some 1 \<and>
      t demo_short_finished = endtime (next_slab demo demo_short)"
    by simp
  from r1 r2 r3 show ?thesis by blast
qed

section \<open>Which slab path an attempt takes\<close>










section \<open>Sampling\<close>
















end
